theory Spec2Isabelle
  imports Complex_Main "HOL-Library.Word"
begin

section \<open>SITL aircraft core: a shallow embedding of \<open>SIM_Aircraft.cpp\<close>\<close>

text \<open>
  The embedding follows \<open>libraries/SITL/SIM_Aircraft.cpp\<close>. Conventions:
  \<^item> \<open>float\<close> and \<open>double\<close> values are real numbers: rounding, infinities and NaN are
    not modelled, every arithmetic operation is the exact one;
  \<^item> \<open>uint32_t\<close> and \<open>uint64_t\<close> are \<open>32 word\<close> and \<open>64 word\<close> (subtraction wraps);
    \<open>int32_t\<close> is a \<open>32 word\<close> read with \<open>sint\<close>;
  \<^item> the class \<open>Aircraft\<close>, the parameter object \<open>SITL\<close> and the output structure
    \<open>sitl_fdm\<close> are records; a member function takes the object and returns the
    updated object; fields of two structures that share a name carry a prefix
    (\<open>sm_\<close> for \<open>smoothing\<close>, \<open>fdm_\<close> for \<open>sitl_fdm\<close>, \<open>d_\<close> for shove and twist);
  \<^item> a pointer that may be null is an \<open>option\<close>; dereferencing a null pointer and
    \<open>AP_HAL::panic\<close> are error results;
  \<^item> clock reads (\<open>AP_HAL::millis\<close>, \<open>get_wall_time_us\<close>) are arguments;
  \<^item> the operations of \<open>AP_Math\<close> whose code is not part of this file
    (\<open>Matrix3f::from_euler\<close>, \<open>to_euler\<close>, \<open>rotate\<close>, \<open>normalize\<close>, the quaternion
    operations, \<open>is_equal\<close>, \<open>Location::offset\<close>, \<open>AP_Param::find\<close>) are taken as
    parameters, collected in the record \<open>ap_math\<close>; every theorem about the program
    holds for all values of these parameters.
\<close>

subsection \<open>Vectors and matrices\<close>

record Vector3f =
  vx :: real
  vy :: real
  vz :: real

text \<open>\<open>Matrix3f\<close> stores its three rows \<open>a\<close>, \<open>b\<close>, \<open>c\<close>.\<close>

record Matrix3f =
  ma :: Vector3f
  mb :: Vector3f
  mc :: Vector3f

record Quaternion =
  q1 :: real
  q2 :: real
  q3 :: real
  q4 :: real

definition vec :: "real \<Rightarrow> real \<Rightarrow> real \<Rightarrow> Vector3f" where
  "vec a b c = \<lparr>vx = a, vy = b, vz = c\<rparr>"

definition vzero :: Vector3f where
  "vzero = vec 0 0 0"

definition vadd :: "Vector3f \<Rightarrow> Vector3f \<Rightarrow> Vector3f" where
  "vadd u v = vec (vx u + vx v) (vy u + vy v) (vz u + vz v)"

definition vsub :: "Vector3f \<Rightarrow> Vector3f \<Rightarrow> Vector3f" where
  "vsub u v = vec (vx u - vx v) (vy u - vy v) (vz u - vz v)"

definition vscale :: "Vector3f \<Rightarrow> real \<Rightarrow> Vector3f" where
  "vscale v k = vec (vx v * k) (vy v * k) (vz v * k)"

definition vdiv :: "Vector3f \<Rightarrow> real \<Rightarrow> Vector3f" where
  "vdiv v k = vec (vx v / k) (vy v / k) (vz v / k)"

definition vdot :: "Vector3f \<Rightarrow> Vector3f \<Rightarrow> real" where
  "vdot u v = vx u * vx v + vy u * vy v + vz u * vz v"

definition vlength :: "Vector3f \<Rightarrow> real" where
  "vlength v = sqrt (vx v * vx v + vy v * vy v + vz v * vz v)"

definition mat_mul_vec :: "Matrix3f \<Rightarrow> Vector3f \<Rightarrow> Vector3f" where
  "mat_mul_vec m v = vec (vdot (ma m) v) (vdot (mb m) v) (vdot (mc m) v)"

definition transposed :: "Matrix3f \<Rightarrow> Matrix3f" where
  "transposed m =
     \<lparr>ma = vec (vx (ma m)) (vx (mb m)) (vx (mc m)),
      mb = vec (vy (ma m)) (vy (mb m)) (vy (mc m)),
      mc = vec (vz (ma m)) (vz (mb m)) (vz (mc m))\<rparr>"

definition mat_mul :: "Matrix3f \<Rightarrow> Matrix3f \<Rightarrow> Matrix3f" where
  "mat_mul m n =
     (let t = transposed n in
      \<lparr>ma = vec (vdot (ma m) (ma t)) (vdot (ma m) (mb t)) (vdot (ma m) (mc t)),
       mb = vec (vdot (mb m) (ma t)) (vdot (mb m) (mb t)) (vdot (mb m) (mc t)),
       mc = vec (vdot (mc m) (ma t)) (vdot (mc m) (mb t)) (vdot (mc m) (mc t))\<rparr>)"

definition midentity :: Matrix3f where
  "midentity = \<lparr>ma = vec 1 0 0, mb = vec 0 1 0, mc = vec 0 0 1\<rparr>"

subsection \<open>Constants and scalar helpers\<close>

text \<open>Modelled from the spec: the constant \<open>GRAVITY_MSS\<close> (one g, in m/s/s) of
  \<open>AP_Math\<close>, whose definition is not in this file.\<close>

definition GRAVITY_MSS :: real where
  "GRAVITY_MSS = 980665 / 100000"

text \<open>Modelled from the spec: \<open>radians\<close> and \<open>degrees\<close>, the unit conversions of
  \<open>AP_Math\<close> (the spec writes the bounds in degrees).\<close>

definition radians :: "real \<Rightarrow> real" where
  "radians d = d * pi / 180"

definition degrees :: "real \<Rightarrow> real" where
  "degrees r = r * 180 / pi"

text \<open>Modelled from the spec: \<open>constrain_float\<close> of \<open>AP_Math\<close>, the clamp of a value
  to an interval.\<close>

definition constrain_float :: "real \<Rightarrow> real \<Rightarrow> real \<Rightarrow> real" where
  "constrain_float amt low high =
     (if amt < low then low else if amt > high then high else amt)"

text \<open>The macro \<open>MAX(a,b)\<close>.\<close>

definition MAX_f :: "real \<Rightarrow> real \<Rightarrow> real" where
  "MAX_f a b = (if a > b then a else b)"

text \<open>A conversion \<open>static_cast<T>(f)\<close> of a floating value to an integer type drops
  the fraction (rounds towards zero); the word takes the low bits of the result.\<close>

definition trunc_real :: "real \<Rightarrow> int" where
  "trunc_real r = (if 0 \<le> r then \<lfloor>r\<rfloor> else \<lceil>r\<rceil>)"

definition to_int32 :: "real \<Rightarrow> 32 word" where
  "to_int32 r = word_of_int (trunc_real r)"

definition to_uint64 :: "real \<Rightarrow> 64 word" where
  "to_uint64 r = word_of_int (trunc_real r)"

subsection \<open>Data model\<close>

record Location =
  lat :: "32 word"
  lng :: "32 word"
  alt :: "32 word"

datatype Rotation = ROTATION_NONE | ROTATION_CUSTOM | ROTATION_OTHER nat

datatype GroundBehaviour =
    GROUND_BEHAVIOR_NONE
  | GROUND_BEHAVIOR_NO_MOVEMENT
  | GROUND_BEHAVIOR_FWD_ONLY
  | GROUND_BEHAVIOR_TAILSITTER
  | GROUND_BEHAVIOR_OTHER int

text \<open>The cast \<open>(GroundBehaviour)sitl->gnd_behav.get()\<close>: the enumerators are numbered
  from 0; any other value matches no case of the \<open>switch\<close>.\<close>

definition GroundBehaviour_of :: "int \<Rightarrow> GroundBehaviour" where
  "GroundBehaviour_of i =
     (if i = 0 then GROUND_BEHAVIOR_NONE
      else if i = 1 then GROUND_BEHAVIOR_NO_MOVEMENT
      else if i = 2 then GROUND_BEHAVIOR_FWD_ONLY
      else if i = 3 then GROUND_BEHAVIOR_TAILSITTER
      else GROUND_BEHAVIOR_OTHER i)"

datatype error = NullPointer | Panic string

text \<open>The operations of \<open>AP_Math\<close>, \<open>Location\<close> and \<open>AP_Param\<close> that the file calls
  and does not define.\<close>

record ap_math =
  from_euler :: "real \<Rightarrow> real \<Rightarrow> real \<Rightarrow> Matrix3f"
  to_euler :: "Matrix3f \<Rightarrow> real \<times> real \<times> real"
  rotate :: "Matrix3f \<Rightarrow> Vector3f \<Rightarrow> Matrix3f"
  normalize_m :: "Matrix3f \<Rightarrow> Matrix3f"
  from_rotation :: "Rotation \<Rightarrow> Matrix3f"
  q_from_rotation_matrix :: "Matrix3f \<Rightarrow> Quaternion"
  q_normalize :: "Quaternion \<Rightarrow> Quaternion"
  q_div :: "Quaternion \<Rightarrow> Quaternion \<Rightarrow> Quaternion"
  q_to_axis_angle :: "Quaternion \<Rightarrow> Vector3f"
  is_equal :: "real \<Rightarrow> real \<Rightarrow> bool"
  atan2f :: "real \<Rightarrow> real \<Rightarrow> real"
  loc_offset :: "Location \<Rightarrow> real \<Rightarrow> real \<Rightarrow> Location"
  AP_Param_find :: "string \<Rightarrow> real option"

text \<open>A disturbance (\<open>sitl->shove\<close>, \<open>sitl->twist\<close>): magnitude, duration in
  milliseconds, start timestamp.\<close>

record disturbance =
  d_x :: real
  d_y :: real
  d_z :: real
  d_t :: "32 word"
  d_start_ms :: "32 word"

text \<open>The members of the parameter object \<open>SITL\<close> that the modelled functions read
  or write.\<close>

record SITL =
  terrain_enable :: bool
  loop_rate_hz :: real
  speedup :: real
  gnd_behav :: int
  shove :: disturbance
  twist :: disturbance
  ahrs_rotation :: Matrix3f
  ahrs_rotation_inv :: Matrix3f

record smoothing_t =
  sm_position :: Vector3f
  sm_rotation_b2e :: Matrix3f
  sm_accel_body :: Vector3f
  sm_velocity_ef :: Vector3f
  sm_gyro :: Vector3f
  sm_last_update_us :: "64 word"
  sm_location :: Location
  sm_enabled :: bool

text \<open>The members of \<open>Aircraft\<close>. \<open>terrain\<close> is the terrain database:
  \<open>height_amsl\<close> gives a height or fails. \<open>gcs_sent\<close> collects the vertical speeds
  reported by \<open>gcs().send_text\<close>. The scanner pointers are addresses.\<close>

record Aircraft =
  sitl :: "SITL option"
  terrain :: "(Location \<Rightarrow> real option) option"
  home :: Location
  location :: Location
  ground_level :: real
  frame_height :: real
  dcm :: Matrix3f
  gyro :: Vector3f
  gyro_prev :: Vector3f
  ang_accel :: Vector3f
  velocity_ef :: Vector3f
  wind_ef :: Vector3f
  velocity_air_ef :: Vector3f
  velocity_air_bf :: Vector3f
  position :: Vector3f
  accel_body :: Vector3f
  mag_bf :: Vector3f
  airspeed :: real
  airspeed_pitot :: real
  time_now_us :: "64 word"
  frame_time_us :: "64 word"
  scaled_frame_time_us :: real
  last_wall_time_us :: "64 word"
  rate_hz :: real
  target_speedup :: real
  achieved_rate_hz :: real
  last_speedup :: real
  last_ground_contact_ms :: "32 word"
  ground_behavior :: GroundBehaviour
  use_smoothing :: bool
  smoothing :: smoothing_t
  battery_voltage :: real
  battery_current :: real
  num_motors :: "8 word"
  rpm :: "real list"
  rcin_chan_count :: "8 word"
  rcin :: "real list"
  range :: real
  scanner_points :: nat
  scanner_ranges :: nat
  ahrs_orientation :: "Rotation option"
  last_imu_rotation :: Rotation
  custom_roll :: "real option"
  custom_pitch :: "real option"
  custom_yaw :: "real option"
  gcs_sent :: "real list"

subsection \<open>Ground contact\<close>

text \<open>\<open>Aircraft::ground_height_difference\<close>: the terrain height at the current
  location minus the one at home, 0 when terrain is off or a lookup fails.\<close>

definition ground_height_difference :: "Aircraft \<Rightarrow> real" where
  "ground_height_difference a =
     (case sitl a of
        None \<Rightarrow> 0
      | Some s \<Rightarrow>
          if terrain_enable s then
            (case terrain a of
               None \<Rightarrow> 0
             | Some height_amsl \<Rightarrow>
                 (case height_amsl (home a) of
                    None \<Rightarrow> 0
                  | Some h1 \<Rightarrow>
                      (case height_amsl (location a) of
                         None \<Rightarrow> 0
                       | Some h2 \<Rightarrow> h2 - h1)))
          else 0)"

text \<open>\<open>Aircraft::hagl\<close>.\<close>

definition hagl :: "Aircraft \<Rightarrow> real" where
  "hagl a =
     (- vz (position a)) + real_of_int (sint (alt (home a))) * (1 / 100)
       - ground_level a - frame_height a - ground_height_difference a"

text \<open>\<open>Aircraft::on_ground\<close>.\<close>

definition on_ground :: "Aircraft \<Rightarrow> bool" where
  "on_ground a = (hagl a \<le> 1 / 1000)"

subsection \<open>Frame time\<close>

text \<open>\<open>Aircraft::setup_frame_time\<close>; the argument \<open>wall\<close> is the value of
  \<open>get_wall_time_us()\<close>.\<close>

definition setup_frame_time :: "64 word \<Rightarrow> real \<Rightarrow> real \<Rightarrow> Aircraft \<Rightarrow> Aircraft" where
  "setup_frame_time wall new_rate new_speedup a =
     (let ft = to_uint64 (1000000 / new_rate) in
      a\<lparr>rate_hz := new_rate,
        target_speedup := new_speedup,
        frame_time_us := ft,
        scaled_frame_time_us := real (unat ft) / new_speedup,
        last_wall_time_us := wall,
        achieved_rate_hz := new_rate\<rparr>)"

text \<open>\<open>Aircraft::set_speedup\<close>.\<close>

definition set_speedup :: "64 word \<Rightarrow> real \<Rightarrow> Aircraft \<Rightarrow> Aircraft" where
  "set_speedup wall sp a = setup_frame_time wall (rate_hz a) sp a"

text \<open>\<open>Aircraft::adjust_frame_time\<close>.\<close>

definition adjust_frame_time :: "ap_math \<Rightarrow> real \<Rightarrow> Aircraft \<Rightarrow> Aircraft" where
  "adjust_frame_time L new_rate a =
     (if \<not> is_equal L (rate_hz a) new_rate then
        (let ft = to_uint64 (1000000 / new_rate) in
         a\<lparr>rate_hz := new_rate,
           frame_time_us := ft,
           scaled_frame_time_us := real (unat ft) / target_speedup a\<rparr>)
      else a)"

subsection \<open>The dynamics update\<close>

text \<open>\<open>Aircraft::update_dynamics\<close>, first part (from the start of the function to the
  pitot airspeed): integration of rates, attitude, velocity and position, and the
  air data. The result carries the locals \<open>accel_earth\<close> and \<open>was_on_ground\<close>, which
  the second part reads.\<close>

definition update_dynamics_integrate ::
  "ap_math \<Rightarrow> Vector3f \<Rightarrow> Aircraft \<Rightarrow> Aircraft \<times> Vector3f \<times> bool" where
  "update_dynamics_integrate L rot_accel a0 =
     (let delta_time = real (unat (frame_time_us a0)) * (1 / 1000000);
          g1 = vadd (gyro a0) (vscale rot_accel delta_time);
          g2 = vec (constrain_float (vx g1) (- radians 2000) (radians 2000))
                   (constrain_float (vy g1) (- radians 2000) (radians 2000))
                   (constrain_float (vz g1) (- radians 2000) (radians 2000));
          a1 = a0\<lparr>gyro := g2,
                  ang_accel := vdiv (vsub g2 (gyro_prev a0)) delta_time,
                  gyro_prev := g2\<rparr>;
          a2 = a1\<lparr>dcm := normalize_m L (rotate L (dcm a1) (vscale g2 delta_time))\<rparr>;
          accel_earth0 =
            vadd (mat_mul_vec (dcm a2) (accel_body a2)) (vec 0 0 GRAVITY_MSS);
          accel_earth =
            (if on_ground a2 \<and> vz accel_earth0 > 0 then accel_earth0\<lparr>vz := 0\<rparr>
             else accel_earth0);
          a3 = a2\<lparr>accel_body :=
                    mat_mul_vec (transposed (dcm a2))
                      (vadd accel_earth (vec 0 0 (- GRAVITY_MSS)))\<rparr>;
          a4 = a3\<lparr>velocity_ef := vadd (velocity_ef a3) (vscale accel_earth delta_time)\<rparr>;
          was_on_ground = on_ground a4;
          a5 = a4\<lparr>position := vadd (position a4) (vscale (velocity_ef a4) delta_time)\<rparr>;
          a6 = a5\<lparr>velocity_air_ef := vadd (velocity_ef a5) (wind_ef a5)\<rparr>;
          a7 = a6\<lparr>velocity_air_bf :=
                    mat_mul_vec (transposed (dcm a6)) (velocity_air_ef a6)\<rparr>;
          a8 = a7\<lparr>airspeed := vlength (velocity_air_ef a7)\<rparr>;
          a9 = a8\<lparr>airspeed_pitot :=
                    constrain_float (vdot (velocity_air_bf a8) (vec 1 0 0)) 0 120\<rparr>
      in (a9, accel_earth, was_on_ground))"

text \<open>\<open>Aircraft::update_dynamics\<close>, second part (\<open>// constrain height to the
  ground\<close>): the ground contact handling. \<open>now_ms\<close> is \<open>AP_HAL::millis()\<close>.\<close>

definition update_dynamics_ground ::
  "ap_math \<Rightarrow> 32 word \<Rightarrow> Vector3f \<Rightarrow> bool \<Rightarrow> Aircraft \<Rightarrow> Aircraft" where
  "update_dynamics_ground L now_ms accel_earth was_on_ground a0 =
     (if on_ground a0 then
        (let a1 = (if \<not> was_on_ground \<and> now_ms - last_ground_contact_ms a0 > 1000
                   then a0\<lparr>gcs_sent := gcs_sent a0 @ [vz (velocity_ef a0)],
                           last_ground_contact_ms := now_ms\<rparr>
                   else a0);
             a2 = a1\<lparr>position := (position a1)
                    \<lparr>vz := - (ground_level a1 + frame_height a1
                              - real_of_int (sint (alt (home a1))) * (1 / 100)
                              + ground_height_difference a1)\<rparr>\<rparr>
         in case ground_behavior a2 of
              GROUND_BEHAVIOR_NONE \<Rightarrow> a2
            | GROUND_BEHAVIOR_NO_MOVEMENT \<Rightarrow>
                (let (r, p, y) = to_euler L (dcm a2);
                     a3 = a2\<lparr>dcm := from_euler L 0 0 y\<rparr>;
                     v1 = (velocity_ef a3)\<lparr>vx := 0\<rparr>;
                     v2 = v1\<lparr>vy := 0\<rparr>;
                     v3 = (if vz v2 > 0 then v2\<lparr>vz := 0\<rparr> else v2)
                 in a3\<lparr>velocity_ef := v3, gyro := vzero, use_smoothing := True\<rparr>)
            | GROUND_BEHAVIOR_FWD_ONLY \<Rightarrow>
                (let (r, p0, y) = to_euler L (dcm a2);
                     p = (if vlength (velocity_ef a2) < 5 then 0 else MAX_f p0 0);
                     a3 = a2\<lparr>dcm := from_euler L 0 p y\<rparr>;
                     v_bf0 = mat_mul_vec (transposed (dcm a3)) (velocity_ef a3);
                     v_bf1 = v_bf0\<lparr>vy := 0\<rparr>;
                     v_bf = (if vx v_bf1 < 0 then v_bf1\<lparr>vx := 0\<rparr> else v_bf1);
                     v1 = mat_mul_vec (dcm a3) v_bf;
                     v2 = (if vz v1 > 0 then v1\<lparr>vz := 0\<rparr> else v1)
                 in a3\<lparr>velocity_ef := v2, gyro := vzero, use_smoothing := True\<rparr>)
            | GROUND_BEHAVIOR_TAILSITTER \<Rightarrow>
                (let (r, p, y) = to_euler L (dcm a2);
                     a3 = a2\<lparr>dcm := from_euler L 0 (radians 90) y\<rparr>;
                     a4 = (if vz accel_earth > - (11 / 10) * GRAVITY_MSS
                           then a3\<lparr>velocity_ef := vzero\<rparr> else a3)
                 in a4\<lparr>gyro := vzero, use_smoothing := True\<rparr>)
            | GROUND_BEHAVIOR_OTHER n \<Rightarrow> a2)
      else a0)"

text \<open>\<open>Aircraft::update_dynamics\<close>: the two parts, then the change of the physics
  step, which reads \<open>sitl->loop_rate_hz\<close> without a null check.\<close>

definition update_dynamics ::
  "ap_math \<Rightarrow> 32 word \<Rightarrow> Vector3f \<Rightarrow> Aircraft \<Rightarrow> error + Aircraft" where
  "update_dynamics L now_ms rot_accel a =
     (let (a1, accel_earth, was_on_ground) = update_dynamics_integrate L rot_accel a;
          a2 = update_dynamics_ground L now_ms accel_earth was_on_ground a1
      in case sitl a2 of
           None \<Rightarrow> Inl NullPointer
         | Some s \<Rightarrow>
             Inr (adjust_frame_time L
                    (constrain_float (loop_rate_hz s) (rate_hz a2 - 1) (rate_hz a2 + 1)) a2))"

subsection \<open>The smoothing filter\<close>

text \<open>\<open>Aircraft::smooth_sensors\<close>. The two \<open>to_euler\<close> calls whose results only feed the
  disabled log record have no effect and are left out, as is the \<open>printf\<close> of the
  reset.\<close>

definition smooth_sensors :: "ap_math \<Rightarrow> Aircraft \<Rightarrow> Aircraft" where
  "smooth_sensors L a =
     (let now = time_now_us a;
          sm = smoothing a;
          delta_pos = vsub (position a) (sm_position sm)
      in if sm_last_update_us sm = 0 \<or> vlength delta_pos > 10 then
           a\<lparr>smoothing := sm
               \<lparr>sm_position := position a,
                sm_rotation_b2e := dcm a,
                sm_accel_body := accel_body a,
                sm_velocity_ef := velocity_ef a,
                sm_gyro := gyro a,
                sm_last_update_us := now,
                sm_location := location a\<rparr>\<rparr>
         else
           (let delta_time = real (unat (now - sm_last_update_us sm)) * (1 / 1000000)
            in if delta_time < 0 \<or> delta_time > 1 / 10 then a
               else
                 (let time_constant = 1 / 10;
                      dvel = vadd (vsub (velocity_ef a) (sm_velocity_ef sm))
                               (vdiv delta_pos time_constant);
                      accel_e0 = vadd (vdiv dvel time_constant)
                                   (vadd (mat_mul_vec (dcm a) (accel_body a))
                                      (vec 0 0 GRAVITY_MSS));
                      accel_limit = 14 * GRAVITY_MSS;
                      accel_e = vec (constrain_float (vx accel_e0) (- accel_limit) accel_limit)
                                    (constrain_float (vy accel_e0) (- accel_limit) accel_limit)
                                    (constrain_float (vz accel_e0) (- accel_limit) accel_limit);
                      sm1 = sm\<lparr>sm_accel_body :=
                                 mat_mul_vec (transposed (sm_rotation_b2e sm))
                                   (vadd accel_e (vec 0 0 (- GRAVITY_MSS)))\<rparr>;
                      desired_q = q_normalize L (q_from_rotation_matrix L (dcm a));
                      current_q = q_normalize L (q_from_rotation_matrix L (sm_rotation_b2e sm1));
                      error_q = q_normalize L (q_div L desired_q current_q);
                      angle_differential = q_to_axis_angle L error_q;
                      sm2 = sm1\<lparr>sm_gyro := vadd (gyro a) (vdiv angle_differential time_constant)\<rparr>;
                      sm3 = sm2\<lparr>sm_rotation_b2e :=
                                 normalize_m L (rotate L (sm_rotation_b2e sm2)
                                                  (vscale (sm_gyro sm2) delta_time))\<rparr>;
                      sm4 = sm3\<lparr>sm_velocity_ef :=
                                 vadd (sm_velocity_ef sm3) (vscale accel_e delta_time)\<rparr>;
                      sm5 = sm4\<lparr>sm_position :=
                                 vadd (sm_position sm4) (vscale (sm_velocity_ef sm4) delta_time)\<rparr>;
                      loc1 = loc_offset L (home a) (vx (sm_position sm5)) (vy (sm_position sm5));
                      loc2 = loc1\<lparr>alt := to_int32 (real_of_int (sint (alt (home a)))
                                                     - vz (sm_position sm5) * 100)\<rparr>
                  in a\<lparr>smoothing := sm5
                        \<lparr>sm_location := loc2,
                         sm_last_update_us := now,
                         sm_enabled := True\<rparr>\<rparr>)))"

subsection \<open>The snapshot\<close>

record sitl_fdm =
  fdm_timestamp_us :: "64 word"
  fdm_home :: Location
  fdm_latitude :: real
  fdm_longitude :: real
  fdm_altitude :: real
  fdm_heading :: real
  fdm_speedN :: real
  fdm_speedE :: real
  fdm_speedD :: real
  fdm_xAccel :: real
  fdm_yAccel :: real
  fdm_zAccel :: real
  fdm_rollRate :: real
  fdm_pitchRate :: real
  fdm_yawRate :: real
  fdm_angAccel :: Vector3f
  fdm_rollDeg :: real
  fdm_pitchDeg :: real
  fdm_yawDeg :: real
  fdm_quaternion :: Quaternion
  fdm_airspeed :: real
  fdm_battery_voltage :: real
  fdm_battery_current :: real
  fdm_num_motors :: "8 word"
  fdm_rpm :: "real list"
  fdm_rcin_chan_count :: "8 word"
  fdm_range :: real
  fdm_rcin :: "real list"
  fdm_bodyMagField :: Vector3f
  fdm_scanner_points :: nat
  fdm_scanner_ranges :: nat

text \<open>\<open>memcpy(dst, src, n * sizeof(float))\<close> on arrays of floats: the first \<open>n\<close>
  elements of \<open>dst\<close> become those of \<open>src\<close>.\<close>

definition memcpy_float :: "real list \<Rightarrow> real list \<Rightarrow> nat \<Rightarrow> real list" where
  "memcpy_float dst src n = take n src @ drop n dst"

text \<open>\<open>Aircraft::fill_fdm\<close>, the assignments from \<open>fdm.timestamp_us\<close> to the block
  \<open>if (smoothing.enabled)\<close>.\<close>

definition fill_fdm_fields :: "ap_math \<Rightarrow> Aircraft \<Rightarrow> sitl_fdm \<Rightarrow> sitl_fdm" where
  "fill_fdm_fields L a fdm0 =
     (let fdm1 = fdm0\<lparr>fdm_timestamp_us := time_now_us a\<rparr>;
          fdm2 = (if lat (fdm_home fdm1) = 0 \<and> lng (fdm_home fdm1) = 0
                  then fdm1\<lparr>fdm_home := home a\<rparr> else fdm1);
          (r, p, y) = to_euler L (dcm a);
          fdm3 = fdm2
            \<lparr>fdm_latitude := real_of_int (sint (lat (location a))) * (1 / 10000000),
             fdm_longitude := real_of_int (sint (lng (location a))) * (1 / 10000000),
             fdm_altitude := real_of_int (sint (alt (location a))) * (1 / 100),
             fdm_heading := degrees (atan2f L (vy (velocity_ef a)) (vx (velocity_ef a))),
             fdm_speedN := vx (velocity_ef a),
             fdm_speedE := vy (velocity_ef a),
             fdm_speedD := vz (velocity_ef a),
             fdm_xAccel := vx (accel_body a),
             fdm_yAccel := vy (accel_body a),
             fdm_zAccel := vz (accel_body a),
             fdm_rollRate := degrees (vx (gyro a)),
             fdm_pitchRate := degrees (vy (gyro a)),
             fdm_yawRate := degrees (vz (gyro a)),
             fdm_angAccel := vec (degrees (vx (ang_accel a))) (degrees (vy (ang_accel a)))
                               (degrees (vz (ang_accel a))),
             fdm_rollDeg := degrees r,
             fdm_pitchDeg := degrees p,
             fdm_yawDeg := degrees y,
             fdm_quaternion := q_from_rotation_matrix L (dcm a),
             fdm_airspeed := airspeed_pitot a,
             fdm_battery_voltage := battery_voltage a,
             fdm_battery_current := battery_current a,
             fdm_num_motors := num_motors a,
             fdm_rpm := memcpy_float (fdm_rpm fdm2) (rpm a) (unat (num_motors a)),
             fdm_rcin_chan_count := rcin_chan_count a,
             fdm_range := range a,
             fdm_rcin := memcpy_float (fdm_rcin fdm2) (rcin a) (unat (rcin_chan_count a)),
             fdm_bodyMagField := mag_bf a,
             fdm_scanner_points := scanner_points a,
             fdm_scanner_ranges := scanner_ranges a\<rparr>
      in if sm_enabled (smoothing a) then
           fdm3
             \<lparr>fdm_xAccel := vx (sm_accel_body (smoothing a)),
              fdm_yAccel := vy (sm_accel_body (smoothing a)),
              fdm_zAccel := vz (sm_accel_body (smoothing a)),
              fdm_rollRate := degrees (vx (sm_gyro (smoothing a))),
              fdm_pitchRate := degrees (vy (sm_gyro (smoothing a))),
              fdm_yawRate := degrees (vz (sm_gyro (smoothing a))),
              fdm_speedN := vx (sm_velocity_ef (smoothing a)),
              fdm_speedE := vy (sm_velocity_ef (smoothing a)),
              fdm_speedD := vz (sm_velocity_ef (smoothing a)),
              fdm_latitude :=
                real_of_int (sint (lat (sm_location (smoothing a)))) * (1 / 10000000),
              fdm_longitude :=
                real_of_int (sint (lng (sm_location (smoothing a)))) * (1 / 10000000),
              fdm_altitude :=
                real_of_int (sint (alt (sm_location (smoothing a)))) * (1 / 100)\<rparr>
         else fdm3)"

text \<open>\<open>Aircraft::fill_fdm\<close>, the block \<open>if (imu_rotation != last_imu_rotation)\<close>: the
  mounting rotation is recomputed when the parameter \<open>AHRS_ORIENTATION\<close> changed.\<close>

definition fill_fdm_mounting :: "ap_math \<Rightarrow> Rotation \<Rightarrow> Aircraft \<Rightarrow> error + Aircraft" where
  "fill_fdm_mounting L imu_rotation a =
     (if imu_rotation \<noteq> last_imu_rotation a then
        (if imu_rotation = ROTATION_CUSTOM then
           (let a1 = (if custom_roll a = None \<or> custom_pitch a = None \<or> custom_yaw a = None
                      then a\<lparr>custom_roll := AP_Param_find L ''AHRS_CUSTOM_ROLL'',
                             custom_pitch := AP_Param_find L ''AHRS_CUSTOM_PIT'',
                             custom_yaw := AP_Param_find L ''AHRS_CUSTOM_YAW''\<rparr>
                      else a)
            in case (custom_roll a1, custom_pitch a1, custom_yaw a1) of
                 (Some cr, Some cp, Some cy) \<Rightarrow>
                   (case sitl a1 of
                      None \<Rightarrow> Inl NullPointer
                    | Some s \<Rightarrow>
                        (let m = from_euler L (radians cr) (radians cp) (radians cy)
                         in Inr (a1\<lparr>sitl := Some (s\<lparr>ahrs_rotation := m,
                                                      ahrs_rotation_inv := transposed m\<rparr>)\<rparr>)))
               | _ \<Rightarrow>
                   Inl (Panic
                     ''could not find one or more of parameters AHRS_CUSTOM_ROLL/PITCH/YAW''))
         else
           (case sitl a of
              None \<Rightarrow> Inl NullPointer
            | Some s \<Rightarrow>
                (let m = from_rotation L imu_rotation
                 in Inr (a\<lparr>sitl := Some (s\<lparr>ahrs_rotation := m,
                                             ahrs_rotation_inv := transposed m\<rparr>),
                           last_imu_rotation := imu_rotation\<rparr>))))
      else Inr a)"

text \<open>\<open>Aircraft::fill_fdm\<close>, the block \<open>if (imu_rotation != ROTATION_NONE)\<close>: the
  reported attitude of a rotated sensor package.\<close>

definition fill_fdm_attitude ::
  "ap_math \<Rightarrow> Rotation \<Rightarrow> Aircraft \<Rightarrow> sitl_fdm \<Rightarrow> error + sitl_fdm" where
  "fill_fdm_attitude L imu_rotation a fdm =
     (if imu_rotation \<noteq> ROTATION_NONE then
        (case sitl a of
           None \<Rightarrow> Inl NullPointer
         | Some s \<Rightarrow>
             (let m = mat_mul (dcm a) (ahrs_rotation_inv s);
                  (r, p, y) = to_euler L m
              in Inr (fdm\<lparr>fdm_rollDeg := degrees r,
                          fdm_pitchDeg := degrees p,
                          fdm_yawDeg := degrees y,
                          fdm_quaternion := q_from_rotation_matrix L m\<rparr>)))
      else Inr fdm)"

text \<open>\<open>Aircraft::fill_fdm\<close> after its first statement: the fields, the mounting
  rotation, and the change of speedup. \<open>wall\<close> is the value of \<open>get_wall_time_us()\<close>
  that \<open>set_speedup\<close> reads. The last statement reads \<open>sitl->speedup\<close> without a null
  check.\<close>

definition fill_fdm_emit ::
  "ap_math \<Rightarrow> 64 word \<Rightarrow> Aircraft \<Rightarrow> sitl_fdm \<Rightarrow> error + (Aircraft \<times> sitl_fdm)" where
  "fill_fdm_emit L wall a1 fdm0 =
     (let fdm1 = fill_fdm_fields L a1 fdm0;
          r = (case ahrs_orientation a1 of
                 None \<Rightarrow> Inr (a1, fdm1)
               | Some imu_rotation \<Rightarrow>
                   (case fill_fdm_mounting L imu_rotation a1 of
                      Inl e \<Rightarrow> Inl e
                    | Inr a2 \<Rightarrow>
                        (case fill_fdm_attitude L imu_rotation a2 fdm1 of
                           Inl e \<Rightarrow> Inl e
                         | Inr fdm2 \<Rightarrow> Inr (a2, fdm2))))
      in case r of
           Inl e \<Rightarrow> Inl e
         | Inr (a3, fdm3) \<Rightarrow>
             (case sitl a3 of
                None \<Rightarrow> Inl NullPointer
              | Some s \<Rightarrow>
                  if \<not> is_equal L (last_speedup a3) (speedup s) \<and> speedup s > 0
                  then Inr ((set_speedup wall (speedup s) a3)\<lparr>last_speedup := speedup s\<rparr>, fdm3)
                  else Inr (a3, fdm3)))"

text \<open>\<open>Aircraft::fill_fdm\<close>: the smoothing filter runs first when \<open>use_smoothing\<close> is
  set.\<close>

definition fill_fdm ::
  "ap_math \<Rightarrow> 64 word \<Rightarrow> Aircraft \<Rightarrow> sitl_fdm \<Rightarrow> error + (Aircraft \<times> sitl_fdm)" where
  "fill_fdm L wall a0 fdm0 =
     fill_fdm_emit L wall (if use_smoothing a0 then smooth_sensors L a0 else a0) fdm0"

subsection \<open>Disturbances\<close>





subsection \<open>An instance of the library operations\<close>

text \<open>The theorems below hold for every value of the record \<open>ap_math\<close>. To run the
  model on examples, \<open>ap_math_ref\<close> gives the operations their usual meaning on real
  numbers: the first-order update of a rotation matrix by a small rotation vector, the
  renormalisation of its rows, the 3-2-1 Euler angles, and the quaternion of a rotation
  matrix. It knows the identity mounting only, and no parameter by name.\<close>

definition vcross :: "Vector3f \<Rightarrow> Vector3f \<Rightarrow> Vector3f" where
  "vcross u v =
     vec (vy u * vz v - vz u * vy v) (vz u * vx v - vx u * vz v) (vx u * vy v - vy u * vx v)"

definition ref_rotate :: "Matrix3f \<Rightarrow> Vector3f \<Rightarrow> Matrix3f" where
  "ref_rotate m g =
     \<lparr>ma = vadd (ma m) (vcross (ma m) g),
      mb = vadd (mb m) (vcross (mb m) g),
      mc = vadd (mc m) (vcross (mc m) g)\<rparr>"

definition ref_normalize :: "Matrix3f \<Rightarrow> Matrix3f" where
  "ref_normalize m =
     (let e = vdot (ma m) (mb m);
          t0 = vsub (ma m) (vscale (mb m) (e / 2));
          t1 = vsub (mb m) (vscale (ma m) (e / 2));
          t2 = vcross t0 t1
      in \<lparr>ma = vscale t0 (1 / vlength t0),
          mb = vscale t1 (1 / vlength t1),
          mc = vscale t2 (1 / vlength t2)\<rparr>)"

definition ref_from_euler :: "real \<Rightarrow> real \<Rightarrow> real \<Rightarrow> Matrix3f" where
  "ref_from_euler r p y =
     \<lparr>ma = vec (cos p * cos y) (sin r * sin p * cos y - cos r * sin y)
               (cos r * sin p * cos y + sin r * sin y),
      mb = vec (cos p * sin y) (sin r * sin p * sin y + cos r * cos y)
               (cos r * sin p * sin y - sin r * cos y),
      mc = vec (- sin p) (sin r * cos p) (cos r * cos p)\<rparr>"

definition ref_atan2 :: "real \<Rightarrow> real \<Rightarrow> real" where
  "ref_atan2 y x =
     (if 0 < x then arctan (y / x)
      else if x < 0 then (if 0 \<le> y then arctan (y / x) + pi else arctan (y / x) - pi)
      else if 0 < y then pi / 2
      else if y < 0 then - pi / 2
      else 0)"

definition ref_to_euler :: "Matrix3f \<Rightarrow> real \<times> real \<times> real" where
  "ref_to_euler m =
     (ref_atan2 (vy (mc m)) (vz (mc m)),
      - arcsin (vx (mc m)),
      ref_atan2 (vx (mb m)) (vx (ma m)))"

definition ref_q_from_rotation_matrix :: "Matrix3f \<Rightarrow> Quaternion" where
  "ref_q_from_rotation_matrix m =
     (let m00 = vx (ma m); m11 = vy (mb m); m22 = vz (mc m);
          m10 = vx (mb m); m01 = vy (ma m);
          m20 = vx (mc m); m02 = vz (ma m);
          m21 = vy (mc m); m12 = vz (mb m);
          tr = m00 + m11 + m22
      in if 0 < tr then
           (let k = sqrt (tr + 1) * 2
            in \<lparr>q1 = k / 4, q2 = (m21 - m12) / k, q3 = (m02 - m20) / k, q4 = (m10 - m01) / k\<rparr>)
         else if m11 < m00 \<and> m22 < m00 then
           (let k = sqrt (1 + m00 - m11 - m22) * 2
            in \<lparr>q1 = (m21 - m12) / k, q2 = k / 4, q3 = (m01 + m10) / k, q4 = (m02 + m20) / k\<rparr>)
         else if m22 < m11 then
           (let k = sqrt (1 + m11 - m00 - m22) * 2
            in \<lparr>q1 = (m02 - m20) / k, q2 = (m01 + m10) / k, q3 = k / 4, q4 = (m12 + m21) / k\<rparr>)
         else
           (let k = sqrt (1 + m22 - m00 - m11) * 2
            in \<lparr>q1 = (m10 - m01) / k, q2 = (m02 + m20) / k, q3 = (m12 + m21) / k, q4 = k / 4\<rparr>))"

definition ref_q_normalize :: "Quaternion \<Rightarrow> Quaternion" where
  "ref_q_normalize q =
     (let n = sqrt (q1 q * q1 q + q2 q * q2 q + q3 q * q3 q + q4 q * q4 q)
      in if n = 0 then q
         else \<lparr>q1 = q1 q / n, q2 = q2 q / n, q3 = q3 q / n, q4 = q4 q / n\<rparr>)"

definition ref_q_div :: "Quaternion \<Rightarrow> Quaternion \<Rightarrow> Quaternion" where
  "ref_q_div q r =
     \<lparr>q1 = q1 r * q1 q + q2 r * q2 q + q3 r * q3 q + q4 r * q4 q,
      q2 = q1 r * q2 q - q2 r * q1 q - q3 r * q4 q + q4 r * q3 q,
      q3 = q1 r * q3 q + q2 r * q4 q - q3 r * q1 q - q4 r * q2 q,
      q4 = q1 r * q4 q - q2 r * q3 q + q3 r * q2 q - q4 r * q1 q\<rparr>"

definition ref_q_to_axis_angle :: "Quaternion \<Rightarrow> Vector3f" where
  "ref_q_to_axis_angle q =
     (let l = sqrt (q2 q * q2 q + q3 q * q3 q + q4 q * q4 q)
      in if l = 0 then vzero
         else vscale (vec (q2 q) (q3 q) (q4 q)) (2 * ref_atan2 l (q1 q) / l))"

definition ref_loc_offset :: "Location \<Rightarrow> real \<Rightarrow> real \<Rightarrow> Location" where
  "ref_loc_offset loc north east =
     loc\<lparr>lat := lat loc + to_int32 (north * (8983 / 100)),
         lng := lng loc + to_int32 (east * (8983 / 100))\<rparr>"

definition ap_math_ref :: ap_math where
  "ap_math_ref =
     \<lparr>from_euler = ref_from_euler,
      to_euler = ref_to_euler,
      rotate = ref_rotate,
      normalize_m = ref_normalize,
      from_rotation = (\<lambda>r. midentity),
      q_from_rotation_matrix = ref_q_from_rotation_matrix,
      q_normalize = ref_q_normalize,
      q_div = ref_q_div,
      q_to_axis_angle = ref_q_to_axis_angle,
      is_equal = (\<lambda>u v. \<bar>u - v\<bar> < 1 / 8388608),
      atan2f = ref_atan2,
      loc_offset = ref_loc_offset,
      AP_Param_find = (\<lambda>name. None)\<rparr>"

subsection \<open>Example states\<close>

text \<open>The state the constructor and \<open>set_start_location\<close> leave for a home at
  10 m altitude and heading 0, with the parameter object present: level attitude, at
  rest on the ground, 1200 Hz physics (833 microseconds a frame).\<close>

definition no_disturbance :: disturbance where
  "no_disturbance = \<lparr>d_x = 0, d_y = 0, d_z = 0, d_t = 0, d_start_ms = 0\<rparr>"

definition example_sitl :: SITL where
  "example_sitl =
     \<lparr>terrain_enable = False, loop_rate_hz = 1200, speedup = 1, gnd_behav = - 1,
      shove = no_disturbance, twist = no_disturbance,
      ahrs_rotation = midentity, ahrs_rotation_inv = midentity\<rparr>"

definition example_home :: Location where
  "example_home = \<lparr>lat = 0, lng = 0, alt = 1000\<rparr>"

definition example_smoothing :: smoothing_t where
  "example_smoothing =
     \<lparr>sm_position = vzero, sm_rotation_b2e = midentity, sm_accel_body = vzero,
      sm_velocity_ef = vzero, sm_gyro = vzero, sm_last_update_us = 0,
      sm_location = example_home, sm_enabled = False\<rparr>"

definition example_aircraft :: Aircraft where
  "example_aircraft =
     \<lparr>sitl = Some example_sitl, terrain = None,
      home = example_home, location = example_home,
      ground_level = 10, frame_height = 0,
      dcm = midentity, gyro = vzero, gyro_prev = vzero, ang_accel = vzero,
      velocity_ef = vzero, wind_ef = vzero, velocity_air_ef = vzero,
      velocity_air_bf = vzero, position = vzero,
      accel_body = vec 0 0 (- GRAVITY_MSS), mag_bf = vzero,
      airspeed = 0, airspeed_pitot = 0,
      time_now_us = 0, frame_time_us = 833, scaled_frame_time_us = 833,
      last_wall_time_us = 0, rate_hz = 1200, target_speedup = 1,
      achieved_rate_hz = 1200, last_speedup = 1,
      last_ground_contact_ms = 0, ground_behavior = GROUND_BEHAVIOR_NONE,
      use_smoothing = False, smoothing = example_smoothing,
      battery_voltage = 0, battery_current = 0,
      num_motors = 1, rpm = [0], rcin_chan_count = 0, rcin = [], range = 0,
      scanner_points = 0, scanner_ranges = 0,
      ahrs_orientation = None, last_imu_rotation = ROTATION_NONE,
      custom_roll = None, custom_pitch = None, custom_yaw = None,
      gcs_sent = []\<rparr>"


text \<open>Variants of the example state: airborne at 100 m in a wind of 1 m/s along north;
  5 m above the ground; a tailsitter on the ground whose thrust gives 2.2 g of specific
  force upwards; a vehicle on the ground that may only move forwards.\<close>

definition ex_airborne_wind :: Aircraft where
  "ex_airborne_wind = example_aircraft\<lparr>position := vec 0 0 (- 100), wind_ef := vec 1 0 0\<rparr>"

definition ex_above_ground :: Aircraft where
  "ex_above_ground = example_aircraft\<lparr>position := vec 0 0 (- 5)\<rparr>"

definition ex_tailsitter :: Aircraft where
  "ex_tailsitter = example_aircraft
     \<lparr>ground_behavior := GROUND_BEHAVIOR_TAILSITTER,
      accel_body := vec 0 0 (- (22 / 10) * GRAVITY_MSS)\<rparr>"

definition ex_fwd_only :: Aircraft where
  "ex_fwd_only = example_aircraft\<lparr>ground_behavior := GROUND_BEHAVIOR_FWD_ONLY\<rparr>"

definition ex_airborne_wind_result :: "error + Aircraft" where
  "ex_airborne_wind_result = update_dynamics ap_math_ref 0 vzero ex_airborne_wind"

definition ex_tailsitter_result :: "error + Aircraft" where
  "ex_tailsitter_result = update_dynamics ap_math_ref 0 vzero ex_tailsitter"

text \<open>States of the smoothing filter: 100 m away from the smoothed position; 0.2 s
  after the previous update; before the previous update (the clock stepped back by 2
  microseconds); at the very time of the previous update.\<close>

definition ex_diverged :: Aircraft where
  "ex_diverged = example_aircraft
     \<lparr>position := vec 0 0 (- 100), time_now_us := 7,
      smoothing := example_smoothing\<lparr>sm_last_update_us := 5\<rparr>\<rparr>"

definition ex_late :: Aircraft where
  "ex_late = example_aircraft
     \<lparr>time_now_us := 200005, smoothing := example_smoothing\<lparr>sm_last_update_us := 5\<rparr>\<rparr>"

definition ex_clock_back :: Aircraft where
  "ex_clock_back = example_aircraft
     \<lparr>time_now_us := 3, smoothing := example_smoothing\<lparr>sm_last_update_us := 5\<rparr>\<rparr>"

definition ex_same_time :: Aircraft where
  "ex_same_time = example_aircraft
     \<lparr>time_now_us := 5, smoothing := example_smoothing\<lparr>sm_last_update_us := 5\<rparr>\<rparr>"

text \<open>A state whose smoothing is enabled, with a truth attitude of 90 degrees of yaw
  and a level smoothed attitude, and a snapshot to fill.\<close>

definition ex_smoothed :: Aircraft where
  "ex_smoothed = example_aircraft
     \<lparr>dcm := ref_from_euler 0 0 (pi / 2),
      smoothing := example_smoothing
        \<lparr>sm_accel_body := vec 1 2 3, sm_last_update_us := 5, sm_enabled := True\<rparr>\<rparr>"

definition example_fdm :: sitl_fdm where
  "example_fdm =
     \<lparr>fdm_timestamp_us = 0, fdm_home = \<lparr>lat = 0, lng = 0, alt = 0\<rparr>,
      fdm_latitude = 0, fdm_longitude = 0, fdm_altitude = 0, fdm_heading = 0,
      fdm_speedN = 0, fdm_speedE = 0, fdm_speedD = 0,
      fdm_xAccel = 0, fdm_yAccel = 0, fdm_zAccel = 0,
      fdm_rollRate = 0, fdm_pitchRate = 0, fdm_yawRate = 0, fdm_angAccel = vzero,
      fdm_rollDeg = 0, fdm_pitchDeg = 0, fdm_yawDeg = 0,
      fdm_quaternion = \<lparr>q1 = 1, q2 = 0, q3 = 0, q4 = 0\<rparr>,
      fdm_airspeed = 0, fdm_battery_voltage = 0, fdm_battery_current = 0,
      fdm_num_motors = 0, fdm_rpm = [0], fdm_rcin_chan_count = 0, fdm_range = 0,
      fdm_rcin = [], fdm_bodyMagField = vzero,
      fdm_scanner_points = 0, fdm_scanner_ranges = 0\<rparr>"

definition ex_smoothed_result :: "error + (Aircraft \<times> sitl_fdm)" where
  "ex_smoothed_result = fill_fdm ap_math_ref 0 ex_smoothed example_fdm"



text \<open>The example state in a wind of \<open>w\<close> m/s along north; and a forward-only
  vehicle at touchdown: 2 mm above the ground, pitched nose up by \<open>arcsin (3/5)\<close>, moving
  north at 3 m/s and sinking at 4.5 m/s, its specific force balancing gravity.\<close>

definition ex_in_wind :: "real \<Rightarrow> Aircraft" where
  "ex_in_wind w = example_aircraft\<lparr>wind_ef := vec w 0 0\<rparr>"

definition pitched_dcm :: Matrix3f where
  "pitched_dcm = \<lparr>ma = vec (4 / 5) 0 (3 / 5), mb = vec 0 1 0, mc = vec (- (3 / 5)) 0 (4 / 5)\<rparr>"

definition ex_touchdown :: Aircraft where
  "ex_touchdown = example_aircraft
     \<lparr>ground_behavior := GROUND_BEHAVIOR_FWD_ONLY,
      dcm := pitched_dcm,
      accel_body := vec (3 / 5 * GRAVITY_MSS) 0 (- (4 / 5) * GRAVITY_MSS),
      velocity_ef := vec 3 0 (9 / 2),
      position := vec 0 0 (- (2 / 1000))\<rparr>"

definition ex_touchdown_result :: "error + Aircraft" where
  "ex_touchdown_result = update_dynamics ap_math_ref 0 vzero ex_touchdown"

subsection \<open>The wording of the specification\<close>

text \<open>The height above ground level as the specification words it: ``current position
  minus home altitude minus ground level minus frame height minus terrain
  correction'', the current position being the height \<open>- position.z\<close>.\<close>

definition hagl_spec :: "Aircraft \<Rightarrow> real" where
  "hagl_spec a =
     (- vz (position a)) - real_of_int (sint (alt (home a))) * (1 / 100)
       - ground_level a - frame_height a - ground_height_difference a"

text \<open>The ground speed in the usual sense of the words: the magnitude of the
  horizontal part of the earth-frame velocity.\<close>

definition ground_speed_spec :: "Vector3f \<Rightarrow> real" where
  "ground_speed_spec v = sqrt (vx v * vx v + vy v * vy v)"

subsection \<open>Notation for the statements\<close>

text \<open>The state after the first part of \<open>update_dynamics\<close>, the local \<open>accel_earth\<close>
  it computes, and the frame duration \<open>delta_time\<close> in seconds.\<close>

abbreviation integrated :: "ap_math \<Rightarrow> Vector3f \<Rightarrow> Aircraft \<Rightarrow> Aircraft" where
  "integrated L rot a \<equiv> fst (update_dynamics_integrate L rot a)"

abbreviation accel_earth_of :: "ap_math \<Rightarrow> Vector3f \<Rightarrow> Aircraft \<Rightarrow> Vector3f" where
  "accel_earth_of L rot a \<equiv> fst (snd (update_dynamics_integrate L rot a))"

definition frame_dt :: "Aircraft \<Rightarrow> real" where
  "frame_dt a = real (unat (frame_time_us a)) * (1 / 1000000)"

text \<open>The elapsed time \<open>delta_time\<close> of \<open>smooth_sensors\<close>, in seconds: the unsigned
  difference of the two timestamps, scaled.\<close>

definition smoothing_delta_time :: "Aircraft \<Rightarrow> real" where
  "smoothing_delta_time a =
     real (unat (time_now_us a - sm_last_update_us (smoothing a))) * (1 / 1000000)"

text \<open>The attitude of a rotation matrix as the snapshot holds it (roll, pitch and yaw
  in degrees, and the quaternion), the attitude fields of a snapshot, and whether the
  sensor package is mounted with a rotation.\<close>

definition attitude_of :: "ap_math \<Rightarrow> Matrix3f \<Rightarrow> real \<times> real \<times> real \<times> Quaternion" where
  "attitude_of L m =
     (case to_euler L m of
        (r, p, y) \<Rightarrow> (degrees r, degrees p, degrees y, q_from_rotation_matrix L m))"

definition fdm_attitude :: "sitl_fdm \<Rightarrow> real \<times> real \<times> real \<times> Quaternion" where
  "fdm_attitude fdm = (fdm_rollDeg fdm, fdm_pitchDeg fdm, fdm_yawDeg fdm, fdm_quaternion fdm)"

definition rotated_mounting :: "Aircraft \<Rightarrow> bool" where
  "rotated_mounting a =
     (case ahrs_orientation a of None \<Rightarrow> False | Some r \<Rightarrow> r \<noteq> ROTATION_NONE)"

text \<open>The attitude \<open>fill_fdm\<close> reports, written as a function of the truth orientation
  and of the mounting parameters.\<close>

definition reported_attitude ::
  "ap_math \<Rightarrow> Aircraft \<Rightarrow> error + (real \<times> real \<times> real \<times> Quaternion)" where
  "reported_attitude L a =
     (case ahrs_orientation a of
        None \<Rightarrow> Inr (attitude_of L (dcm a))
      | Some rot \<Rightarrow>
          (case fill_fdm_mounting L rot a of
             Inl e \<Rightarrow> Inl e
           | Inr a2 \<Rightarrow>
               if rot \<noteq> ROTATION_NONE then
                 (case sitl a2 of
                    None \<Rightarrow> Inl NullPointer
                  | Some s \<Rightarrow> Inr (attitude_of L (mat_mul (dcm a) (ahrs_rotation_inv s))))
               else Inr (attitude_of L (dcm a))))"

text \<open>The magnitude vector of a disturbance, and the first effect of
  \<open>add_twist_forces\<close>, which takes the ground behaviour from the parameter
  \<open>gnd_behav\<close>.\<close>

definition disturbance_vec :: "disturbance \<Rightarrow> Vector3f" where
  "disturbance_vec d = vec (d_x d) (d_y d) (d_z d)"

definition twist_behaviour :: "SITL \<Rightarrow> Aircraft \<Rightarrow> Aircraft" where
  "twist_behaviour s a =
     (if gnd_behav s \<noteq> - 1 then a\<lparr>ground_behavior := GroundBehaviour_of (gnd_behav s)\<rparr> else a)"

section \<open>Properties\<close>

subsection \<open>Auxiliary facts\<close>

lemma hagl_cong:
  "position a' = position a \<Longrightarrow> home a' = home a \<Longrightarrow> ground_level a' = ground_level a \<Longrightarrow>
   frame_height a' = frame_height a \<Longrightarrow> sitl a' = sitl a \<Longrightarrow> terrain a' = terrain a \<Longrightarrow>
   location a' = location a \<Longrightarrow> hagl a' = hagl a"
  by (simp add: hagl_def ground_height_difference_def cong: option.case_cong if_cong)

lemma ground_height_difference_cong:
  "home a' = home a \<Longrightarrow> sitl a' = sitl a \<Longrightarrow> terrain a' = terrain a \<Longrightarrow>
   location a' = location a \<Longrightarrow> ground_height_difference a' = ground_height_difference a"
  by (simp add: ground_height_difference_def cong: option.case_cong if_cong)

lemma integrate_static:
  "sitl (fst (update_dynamics_integrate L rot a)) = sitl a"
  "terrain (fst (update_dynamics_integrate L rot a)) = terrain a"
  "home (fst (update_dynamics_integrate L rot a)) = home a"
  "location (fst (update_dynamics_integrate L rot a)) = location a"
  "ground_level (fst (update_dynamics_integrate L rot a)) = ground_level a"
  "frame_height (fst (update_dynamics_integrate L rot a)) = frame_height a"
  "ground_behavior (fst (update_dynamics_integrate L rot a)) = ground_behavior a"
  "wind_ef (fst (update_dynamics_integrate L rot a)) = wind_ef a"
  "rate_hz (fst (update_dynamics_integrate L rot a)) = rate_hz a"
  "smoothing (fst (update_dynamics_integrate L rot a)) = smoothing a"
  "use_smoothing (fst (update_dynamics_integrate L rot a)) = use_smoothing a"
  by (simp_all add: update_dynamics_integrate_def Let_def)

lemma integrate_gyro:
  "gyro (fst (update_dynamics_integrate L rot a)) =
     vec (constrain_float (vx (gyro a) + vx rot * frame_dt a) (- radians 2000) (radians 2000))
         (constrain_float (vy (gyro a) + vy rot * frame_dt a) (- radians 2000) (radians 2000))
         (constrain_float (vz (gyro a) + vz rot * frame_dt a) (- radians 2000) (radians 2000))"
  "gyro_prev (fst (update_dynamics_integrate L rot a)) = gyro (fst (update_dynamics_integrate L rot a))"
  by (simp_all add: update_dynamics_integrate_def Let_def vadd_def vscale_def vec_def frame_dt_def)

lemma integrate_dcm:
  "dcm (fst (update_dynamics_integrate L rot a)) =
     normalize_m L (rotate L (dcm a) (vscale (gyro (fst (update_dynamics_integrate L rot a))) (frame_dt a)))"
  by (simp add: update_dynamics_integrate_def Let_def frame_dt_def)

lemma integrate_accel_earth:
  "fst (snd (update_dynamics_integrate L rot a)) =
     (let ae = vadd (mat_mul_vec (dcm (fst (update_dynamics_integrate L rot a))) (accel_body a))
                 (vec 0 0 GRAVITY_MSS)
      in if on_ground a \<and> vz ae > 0 then ae\<lparr>vz := 0\<rparr> else ae)"
  by (simp add: update_dynamics_integrate_def Let_def on_ground_def hagl_def ground_height_difference_def
      cong: option.case_cong if_cong)

lemma integrate_velocity:
  "velocity_ef (fst (update_dynamics_integrate L rot a)) =
     vadd (velocity_ef a) (vscale (fst (snd (update_dynamics_integrate L rot a))) (frame_dt a))"
  by (simp add: update_dynamics_integrate_def Let_def frame_dt_def)

lemma integrate_position:
  "position (fst (update_dynamics_integrate L rot a)) =
     vadd (position a) (vscale (velocity_ef (fst (update_dynamics_integrate L rot a))) (frame_dt a))"
  by (simp add: update_dynamics_integrate_def Let_def frame_dt_def)

lemma integrate_was_on_ground:
  "snd (snd (update_dynamics_integrate L rot a)) = on_ground a"
  by (simp add: update_dynamics_integrate_def Let_def on_ground_def hagl_def ground_height_difference_def
      cong: option.case_cong if_cong)

lemma integrate_air:
  "velocity_air_ef (fst (update_dynamics_integrate L rot a)) =
     vadd (velocity_ef (fst (update_dynamics_integrate L rot a))) (wind_ef a)"
  "velocity_air_bf (fst (update_dynamics_integrate L rot a)) =
     mat_mul_vec (transposed (dcm (fst (update_dynamics_integrate L rot a))))
       (velocity_air_ef (fst (update_dynamics_integrate L rot a)))"
  "airspeed (fst (update_dynamics_integrate L rot a)) =
     vlength (velocity_air_ef (fst (update_dynamics_integrate L rot a)))"
  "airspeed_pitot (fst (update_dynamics_integrate L rot a)) =
     constrain_float (vx (velocity_air_bf (fst (update_dynamics_integrate L rot a)))) 0 120"
  by (simp_all add: update_dynamics_integrate_def Let_def vdot_def vec_def)


lemma vec_update:
  "(v::Vector3f)\<lparr>vx := k\<rparr> = vec k (vy v) (vz v)"
  "(v::Vector3f)\<lparr>vy := k\<rparr> = vec (vx v) k (vz v)"
  "(v::Vector3f)\<lparr>vz := k\<rparr> = vec (vx v) (vy v) k"
  by (cases v, simp add: vec_def)+

lemma vec_sel [simp]:
  "vx (vec a b c) = a" "vy (vec a b c) = b" "vz (vec a b c) = c"
  by (simp_all add: vec_def)

lemma ground_unchanged:
  "gyro_prev (update_dynamics_ground L now ae w a) = gyro_prev a"
  "velocity_air_ef (update_dynamics_ground L now ae w a) = velocity_air_ef a"
  "velocity_air_bf (update_dynamics_ground L now ae w a) = velocity_air_bf a"
  "airspeed (update_dynamics_ground L now ae w a) = airspeed a"
  "airspeed_pitot (update_dynamics_ground L now ae w a) = airspeed_pitot a"
  "sitl (update_dynamics_ground L now ae w a) = sitl a"
  "terrain (update_dynamics_ground L now ae w a) = terrain a"
  "home (update_dynamics_ground L now ae w a) = home a"
  "location (update_dynamics_ground L now ae w a) = location a"
  "ground_level (update_dynamics_ground L now ae w a) = ground_level a"
  "frame_height (update_dynamics_ground L now ae w a) = frame_height a"
  "rate_hz (update_dynamics_ground L now ae w a) = rate_hz a"
  "wind_ef (update_dynamics_ground L now ae w a) = wind_ef a"
  by (simp_all add: update_dynamics_ground_def Let_def split: GroundBehaviour.split prod.split)

lemma ground_position:
  "on_ground a \<Longrightarrow>
   position (update_dynamics_ground L now ae w a) =
     (position a)\<lparr>vz := - (ground_level a + frame_height a
                           - real_of_int (sint (alt (home a))) * (1 / 100)
                           + ground_height_difference a)\<rparr>"
  by (simp add: update_dynamics_ground_def Let_def ground_height_difference_def
      split: GroundBehaviour.split prod.split cong: option.case_cong if_cong)

lemma ground_airborne:
  "\<not> on_ground a \<Longrightarrow> update_dynamics_ground L now ae w a = a"
  by (simp add: update_dynamics_ground_def)

lemma ground_gyro:
  "gyro (update_dynamics_ground L now ae w a) = gyro a \<or>
   gyro (update_dynamics_ground L now ae w a) = vzero"
  by (simp add: update_dynamics_ground_def Let_def split: GroundBehaviour.split prod.split)

lemma ground_tailsitter:
  assumes "on_ground a" "ground_behavior a = GROUND_BEHAVIOR_TAILSITTER"
  shows "dcm (update_dynamics_ground L now ae w a) =
           from_euler L 0 (radians 90) (snd (snd (to_euler L (dcm a))))"
    and "gyro (update_dynamics_ground L now ae w a) = vzero"
    and "use_smoothing (update_dynamics_ground L now ae w a)"
    and "velocity_ef (update_dynamics_ground L now ae w a) =
           (if vz ae > - (11 / 10) * GRAVITY_MSS then vzero else velocity_ef a)"
  using assms
  by (simp_all add: update_dynamics_ground_def Let_def split: prod.split)

lemma ground_fwd_only:
  assumes "on_ground a" "ground_behavior a = GROUND_BEHAVIOR_FWD_ONLY"
  shows "dcm (update_dynamics_ground L now ae w a) =
           from_euler L 0
             (if vlength (velocity_ef a) < 5 then 0
              else MAX_f (fst (snd (to_euler L (dcm a)))) 0)
             (snd (snd (to_euler L (dcm a))))"
    and "gyro (update_dynamics_ground L now ae w a) = vzero"
    and "use_smoothing (update_dynamics_ground L now ae w a)"
    and "velocity_ef (update_dynamics_ground L now ae w a) =
           (let m = dcm (update_dynamics_ground L now ae w a);
                v_bf0 = mat_mul_vec (transposed m) (velocity_ef a);
                v_bf = vec (if vx v_bf0 < 0 then 0 else vx v_bf0) 0 (vz v_bf0);
                v1 = mat_mul_vec m v_bf
            in if vz v1 > 0 then v1\<lparr>vz := 0\<rparr> else v1)"
  using assms
  by (simp_all add: update_dynamics_ground_def Let_def vec_update split: prod.split)

lemma adjust_frame_time_shape:
  "\<exists>r f s. adjust_frame_time L new_rate a =
     a\<lparr>rate_hz := r, frame_time_us := f, scaled_frame_time_us := s\<rparr>"
proof (cases "is_equal L (rate_hz a) new_rate")
  case True
  then have "adjust_frame_time L new_rate a =
      a\<lparr>rate_hz := rate_hz a, frame_time_us := frame_time_us a,
        scaled_frame_time_us := scaled_frame_time_us a\<rparr>"
    by (simp add: adjust_frame_time_def)
  then show ?thesis by blast
next
  case False
  then show ?thesis
    by (simp add: adjust_frame_time_def Let_def) blast
qed

lemma update_dynamics_shape:
  assumes "sitl a \<noteq> None"
  shows "\<exists>r f s. update_dynamics L now rot a =
     Inr ((update_dynamics_ground L now (fst (snd (update_dynamics_integrate L rot a)))
            (snd (snd (update_dynamics_integrate L rot a)))
            (fst (update_dynamics_integrate L rot a)))
          \<lparr>rate_hz := r, frame_time_us := f, scaled_frame_time_us := s\<rparr>)"
proof -
  obtain s where s: "sitl a = Some s" using assms by blast
  let ?a2 = "update_dynamics_ground L now (fst (snd (update_dynamics_integrate L rot a)))
            (snd (snd (update_dynamics_integrate L rot a)))
            (fst (update_dynamics_integrate L rot a))"
  have "sitl ?a2 = Some s" by (simp add: ground_unchanged integrate_static s)
  then have "update_dynamics L now rot a =
      Inr (adjust_frame_time L
             (constrain_float (loop_rate_hz s) (rate_hz ?a2 - 1) (rate_hz ?a2 + 1)) ?a2)"
    by (cases "update_dynamics_integrate L rot a") (simp add: update_dynamics_def Let_def)
  then show ?thesis using adjust_frame_time_shape by metis
qed


lemma constrain_float_bounds:
  "low \<le> high \<Longrightarrow> low \<le> constrain_float x low high \<and> constrain_float x low high \<le> high"
  by (simp add: constrain_float_def)

lemma constrain_float_above: "low \<le> high \<Longrightarrow> high < x \<Longrightarrow> constrain_float x low high = high"
  by (simp add: constrain_float_def)

lemma constrain_float_below: "x < low \<Longrightarrow> constrain_float x low high = low"
  by (simp add: constrain_float_def)

lemma radians_2000: "- radians 2000 \<le> radians 2000"
  by (simp add: radians_def)

lemma update_dynamics_result:
  assumes "sitl a \<noteq> None"
  obtains a' where "update_dynamics L now rot a = Inr a'"
    and "gyro_prev a' = gyro (integrated L rot a)"
    and "velocity_air_ef a' = velocity_air_ef (integrated L rot a)"
    and "velocity_air_bf a' = velocity_air_bf (integrated L rot a)"
    and "airspeed a' = airspeed (integrated L rot a)"
    and "airspeed_pitot a' = airspeed_pitot (integrated L rot a)"
    and "gyro a' = gyro (update_dynamics_ground L now (accel_earth_of L rot a) (on_ground a) (integrated L rot a))"
    and "dcm a' = dcm (update_dynamics_ground L now (accel_earth_of L rot a) (on_ground a) (integrated L rot a))"
    and "velocity_ef a' = velocity_ef (update_dynamics_ground L now (accel_earth_of L rot a) (on_ground a) (integrated L rot a))"
    and "position a' = position (update_dynamics_ground L now (accel_earth_of L rot a) (on_ground a) (integrated L rot a))"
    and "use_smoothing a' = use_smoothing (update_dynamics_ground L now (accel_earth_of L rot a) (on_ground a) (integrated L rot a))"
    and "hagl a' = hagl (update_dynamics_ground L now (accel_earth_of L rot a) (on_ground a) (integrated L rot a))"
    and "wind_ef a' = wind_ef a"
proof -
  let ?g = "update_dynamics_ground L now (accel_earth_of L rot a) (on_ground a) (integrated L rot a)"
  from update_dynamics_shape [OF assms, of L now rot]
  obtain r f s where
    "update_dynamics L now rot a =
       Inr (?g\<lparr>rate_hz := r, frame_time_us := f, scaled_frame_time_us := s\<rparr>)"
    unfolding integrate_was_on_ground by blast
  moreover have "hagl (?g\<lparr>rate_hz := r, frame_time_us := f, scaled_frame_time_us := s\<rparr>) = hagl ?g"
    by (rule hagl_cong) simp_all
  ultimately show ?thesis
    by (intro that [of "?g\<lparr>rate_hz := r, frame_time_us := f, scaled_frame_time_us := s\<rparr>"])
       (simp_all add: ground_unchanged integrate_gyro(2) integrate_static)
qed

lemma example_sitl_present: "sitl example_aircraft \<noteq> None"
  by (simp add: example_aircraft_def)

lemma vzero_sel [simp]: "vx vzero = 0" "vy vzero = 0" "vz vzero = 0"
  by (simp_all add: vzero_def)

lemma vec_000: "vec 0 0 0 = vzero"
  by (simp add: vzero_def)

lemma ref_identity_step:
  "normalize_m ap_math_ref (rotate ap_math_ref midentity (vscale vzero k)) = midentity"
  by (simp add: ap_math_ref_def ref_rotate_def ref_normalize_def Let_def midentity_def
      vzero_def vscale_def vadd_def vsub_def vcross_def vdot_def vlength_def)

lemma constrain_float_zero: "constrain_float 0 (- radians 2000) (radians 2000) = 0"
  by (simp add: constrain_float_def radians_def)

lemma level_integrate:
  assumes "gyro a = vzero" "dcm a = midentity"
  shows "gyro (integrated ap_math_ref vzero a) = vzero"
    and "dcm (integrated ap_math_ref vzero a) = midentity"
    and "accel_earth_of ap_math_ref vzero a =
           (if on_ground a \<and> vz (accel_body a) + GRAVITY_MSS > 0
            then vec (vx (accel_body a)) (vy (accel_body a)) 0
            else vec (vx (accel_body a)) (vy (accel_body a)) (vz (accel_body a) + GRAVITY_MSS))"
proof -
  show g: "gyro (integrated ap_math_ref vzero a) = vzero"
    by (simp add: integrate_gyro assms vzero_def constrain_float_zero)
  show d: "dcm (integrated ap_math_ref vzero a) = midentity"
    by (simp add: integrate_dcm g assms ref_identity_step)
  show "accel_earth_of ap_math_ref vzero a =
           (if on_ground a \<and> vz (accel_body a) + GRAVITY_MSS > 0
            then vec (vx (accel_body a)) (vy (accel_body a)) 0
            else vec (vx (accel_body a)) (vy (accel_body a)) (vz (accel_body a) + GRAVITY_MSS))"
    by (simp add: integrate_accel_earth d Let_def midentity_def mat_mul_vec_def vdot_def vadd_def
        vec_update)
qed

lemma ex_hagl: "hagl example_aircraft = 0"
  by (simp add: hagl_def ground_height_difference_def example_aircraft_def example_sitl_def example_home_def vzero_def)


lemma ex_airborne_wind_fields:
  "sitl ex_airborne_wind \<noteq> None" "gyro ex_airborne_wind = vzero"
  "dcm ex_airborne_wind = midentity" "accel_body ex_airborne_wind = vec 0 0 (- GRAVITY_MSS)"
  "velocity_ef ex_airborne_wind = vzero" "wind_ef ex_airborne_wind = vec 1 0 0"
  "position ex_airborne_wind = vec 0 0 (- 100)"
  "hagl ex_airborne_wind = 100"
  by (simp_all add: ex_airborne_wind_def example_aircraft_def hagl_def
      ground_height_difference_def example_sitl_def example_home_def)

lemma ground_snap:
  assumes "sitl a \<noteq> None" and "on_ground (integrated L rot a)"
  obtains a' where "update_dynamics L now rot a = Inr a'"
    and "vz (position a') =
           - (ground_level a + frame_height a
              - real_of_int (sint (alt (home a))) * (1 / 100) + ground_height_difference a)"
    and "hagl a' = 0"
proof -
  let ?a1 = "integrated L rot a"
  let ?g = "update_dynamics_ground L now (accel_earth_of L rot a) (on_ground a) ?a1"
  have ghd1: "ground_height_difference ?a1 = ground_height_difference a"
    by (rule ground_height_difference_cong) (simp_all add: integrate_static)
  have ghd2: "ground_height_difference ?g = ground_height_difference ?a1"
    by (rule ground_height_difference_cong) (simp_all add: ground_unchanged)
  have p: "vz (position ?g) =
           - (ground_level a + frame_height a
              - real_of_int (sint (alt (home a))) * (1 / 100) + ground_height_difference a)"
    by (simp add: ground_position [OF assms(2)] integrate_static ghd1)
  have h: "hagl ?g = 0"
    by (simp add: hagl_def p ghd2 ghd1 ground_unchanged integrate_static)
  from update_dynamics_result [OF assms(1), of L now rot]
  obtain a' where "update_dynamics L now rot a = Inr a'"
    and "position a' = position ?g" and "hagl a' = hagl ?g"
    by blast
  then show ?thesis using p h by (intro that [of a']) simp_all
qed

lemma example_fields:
  "gyro example_aircraft = vzero" "dcm example_aircraft = midentity"
  "accel_body example_aircraft = vec 0 0 (- GRAVITY_MSS)"
  "velocity_ef example_aircraft = vzero" "position example_aircraft = vzero"
  "frame_dt example_aircraft = 833 / 1000000"
  "ground_level example_aircraft = 10" "frame_height example_aircraft = 0"
  "alt (home example_aircraft) = 1000" "ground_height_difference example_aircraft = 0"
  by (simp_all add: example_aircraft_def frame_dt_def ground_height_difference_def
      example_sitl_def example_home_def)

lemma example_on_ground_after: "on_ground (integrated ap_math_ref vzero example_aircraft)"
proof -
  let ?a = example_aircraft
  note f = example_fields
  have ae: "accel_earth_of ap_math_ref vzero ?a = vzero"
    by (simp add: level_integrate f vec_000)
  have v: "velocity_ef (integrated ap_math_ref vzero ?a) = vzero"
    by (simp add: integrate_velocity ae f vadd_def vscale_def vec_000)
  have p: "position (integrated ap_math_ref vzero ?a) = vzero"
    by (simp add: integrate_position v f vadd_def vscale_def vec_000)
  have "hagl (integrated ap_math_ref vzero ?a) = hagl ?a"
    by (rule hagl_cong) (simp_all add: integrate_static p f)
  then show ?thesis by (simp add: on_ground_def ex_hagl)
qed

lemma ex_tailsitter_fields:
  "sitl ex_tailsitter \<noteq> None"
  "gyro ex_tailsitter = vzero" "dcm ex_tailsitter = midentity"
  "accel_body ex_tailsitter = vec 0 0 (- (22 / 10) * GRAVITY_MSS)"
  "velocity_ef ex_tailsitter = vzero" "position ex_tailsitter = vzero"
  "frame_dt ex_tailsitter = 833 / 1000000"
  "ground_level ex_tailsitter = 10" "frame_height ex_tailsitter = 0"
  "alt (home ex_tailsitter) = 1000" "ground_height_difference ex_tailsitter = 0"
  "ground_behavior ex_tailsitter = GROUND_BEHAVIOR_TAILSITTER"
  by (simp_all add: ex_tailsitter_def example_aircraft_def frame_dt_def ground_height_difference_def
      example_sitl_def example_home_def)

lemma ex_tailsitter_integrated:
  "accel_earth_of ap_math_ref vzero ex_tailsitter = vec 0 0 (- (12 / 10) * GRAVITY_MSS)"
  "velocity_ef (integrated ap_math_ref vzero ex_tailsitter) =
     vec 0 0 (- (12 / 10) * GRAVITY_MSS * (833 / 1000000))"
  "on_ground (integrated ap_math_ref vzero ex_tailsitter)"
  "dcm (integrated ap_math_ref vzero ex_tailsitter) = midentity"
proof -
  let ?a = ex_tailsitter
  note f = ex_tailsitter_fields
  show ae: "accel_earth_of ap_math_ref vzero ?a = vec 0 0 (- (12 / 10) * GRAVITY_MSS)"
    by (simp add: level_integrate f GRAVITY_MSS_def)
  show v: "velocity_ef (integrated ap_math_ref vzero ?a) =
     vec 0 0 (- (12 / 10) * GRAVITY_MSS * (833 / 1000000))"
    by (simp add: integrate_velocity ae f vadd_def vscale_def)
  have p: "position (integrated ap_math_ref vzero ?a) =
     vec 0 0 (- (12 / 10) * GRAVITY_MSS * (833 / 1000000) * (833 / 1000000))"
    by (simp add: integrate_position v f vadd_def vscale_def)
  have g: "ground_height_difference (integrated ap_math_ref vzero ?a) = ground_height_difference ?a"
    by (rule ground_height_difference_cong) (simp_all add: integrate_static)
  show "on_ground (integrated ap_math_ref vzero ?a)"
    by (simp add: on_ground_def hagl_def p g integrate_static f GRAVITY_MSS_def)
  show "dcm (integrated ap_math_ref vzero ?a) = midentity"
    by (simp add: level_integrate f)
qed

lemma vec_neq_vzero: "c \<noteq> 0 \<Longrightarrow> vec a b c \<noteq> vzero"
  by (simp add: vec_def vzero_def)

lemma ref_yaw_identity: "snd (snd (to_euler ap_math_ref midentity)) = 0"
  by (simp add: ap_math_ref_def ref_to_euler_def ref_atan2_def midentity_def)


lemma vec_eq_iff: "(u::Vector3f) = v \<longleftrightarrow> vx u = vx v \<and> vy u = vy v \<and> vz u = vz v"
  by (cases u, cases v) simp

lemma mat_mul_vec_assoc: "mat_mul_vec (mat_mul A B) v = mat_mul_vec A (mat_mul_vec B v)"
  by (simp add: mat_mul_vec_def mat_mul_def transposed_def vdot_def Let_def vec_eq_iff algebra_simps)

lemma mat_mul_vec_identity: "mat_mul_vec midentity v = v"
  by (simp add: mat_mul_vec_def midentity_def vdot_def vec_eq_iff)

lemma transposed_mul_cancel:
  "mat_mul (transposed m) m = midentity \<Longrightarrow> mat_mul_vec (transposed m) (mat_mul_vec m v) = v"
  by (simp add: mat_mul_vec_assoc [symmetric] mat_mul_vec_identity)

lemma transposed_drop_vz:
  "mat_mul_vec (transposed m) (v\<lparr>vz := 0\<rparr>) =
     vsub (mat_mul_vec (transposed m) v) (vscale (mc m) (vz v))"
  by (simp add: mat_mul_vec_def transposed_def vdot_def vsub_def vscale_def vec_eq_iff vec_update
      algebra_simps)

lemma fwd_only_body_velocity:
  assumes orth: "mat_mul (transposed m) m = midentity"
    and v: "v = (let v_bf0 = mat_mul_vec (transposed m) u;
                   v_bf = vec (if vx v_bf0 < 0 then 0 else vx v_bf0) 0 (vz v_bf0);
                   v1 = mat_mul_vec m v_bf
               in if vz v1 > 0 then v1\<lparr>vz := 0\<rparr> else v1)"
  shows "vy (mc m) = 0 \<Longrightarrow> vy (mat_mul_vec (transposed m) v) = 0"
    and "vx (mc m) \<le> 0 \<Longrightarrow> 0 \<le> vx (mat_mul_vec (transposed m) v)"
proof -
  define w where "w = vec (if vx (mat_mul_vec (transposed m) u) < 0 then 0
                           else vx (mat_mul_vec (transposed m) u)) 0
                          (vz (mat_mul_vec (transposed m) u))"
  define v1 where "v1 = mat_mul_vec m w"
  have v': "v = (if vz v1 > 0 then v1\<lparr>vz := 0\<rparr> else v1)"
    by (simp add: v Let_def w_def v1_def)
  have bk: "mat_mul_vec (transposed m) v1 = w"
    by (simp add: v1_def transposed_mul_cancel [OF orth])
  have wx: "0 \<le> vx w" and wy: "vy w = 0" by (simp_all add: w_def)
  show "vy (mat_mul_vec (transposed m) v) = 0" if "vy (mc m) = 0"
    using that wy by (simp add: v' transposed_drop_vz bk vsub_def vscale_def)
  show "0 \<le> vx (mat_mul_vec (transposed m) v)" if "vx (mc m) \<le> 0"
  proof (cases "vz v1 > 0")
    case True
    then have "vx (mc m) * vz v1 \<le> 0" using that by (simp add: mult_le_0_iff)
    then show ?thesis using True wx by (simp add: v' transposed_drop_vz bk vsub_def vscale_def)
  next
    case False
    then show ?thesis using wx by (simp add: v' bk)
  qed
qed

lemma ex_fwd_only_fields:
  "sitl ex_fwd_only \<noteq> None"
  "gyro ex_fwd_only = vzero" "dcm ex_fwd_only = midentity"
  "accel_body ex_fwd_only = vec 0 0 (- GRAVITY_MSS)"
  "velocity_ef ex_fwd_only = vzero" "position ex_fwd_only = vzero"
  "frame_dt ex_fwd_only = 833 / 1000000"
  "ground_level ex_fwd_only = 10" "frame_height ex_fwd_only = 0"
  "alt (home ex_fwd_only) = 1000" "ground_height_difference ex_fwd_only = 0"
  "ground_behavior ex_fwd_only = GROUND_BEHAVIOR_FWD_ONLY"
  by (simp_all add: ex_fwd_only_def example_aircraft_def frame_dt_def ground_height_difference_def
      example_sitl_def example_home_def)

lemma ex_fwd_only_integrated:
  "velocity_ef (integrated ap_math_ref vzero ex_fwd_only) = vzero"
  "on_ground (integrated ap_math_ref vzero ex_fwd_only)"
  "dcm (integrated ap_math_ref vzero ex_fwd_only) = midentity"
proof -
  let ?a = ex_fwd_only
  note f = ex_fwd_only_fields
  have ae: "accel_earth_of ap_math_ref vzero ?a = vzero"
    by (simp add: level_integrate f vec_000)
  show v: "velocity_ef (integrated ap_math_ref vzero ?a) = vzero"
    by (simp add: integrate_velocity ae f vadd_def vscale_def vec_000)
  have p: "position (integrated ap_math_ref vzero ?a) = vzero"
    by (simp add: integrate_position v f vadd_def vscale_def vec_000)
  have g: "ground_height_difference (integrated ap_math_ref vzero ?a) = ground_height_difference ?a"
    by (rule ground_height_difference_cong) (simp_all add: integrate_static)
  show "on_ground (integrated ap_math_ref vzero ?a)"
    by (simp add: on_ground_def hagl_def p g integrate_static f)
  show "dcm (integrated ap_math_ref vzero ?a) = midentity"
    by (simp add: level_integrate f)
qed

lemma ref_from_euler_zero: "from_euler ap_math_ref 0 0 0 = midentity"
  by (simp add: ap_math_ref_def ref_from_euler_def midentity_def)

lemma midentity_orthonormal: "mat_mul (transposed midentity) midentity = midentity"
  by (simp add: mat_mul_def transposed_def midentity_def vdot_def Let_def)

lemma ex_diverged_far:
  "vlength (vsub (position ex_diverged) (sm_position (smoothing ex_diverged))) > 10"
proof -
  have "vlength (vsub (position ex_diverged) (sm_position (smoothing ex_diverged))) = sqrt (100 * 100)"
    by (simp add: ex_diverged_def example_aircraft_def example_smoothing_def vlength_def vsub_def)
  also have "\<dots> = \<bar>100\<bar>" by (rule real_sqrt_abs2)
  finally show ?thesis by simp
qed

lemma smoothing_delta_time_nonneg: "0 \<le> smoothing_delta_time a"
  by (simp add: smoothing_delta_time_def del: of_nat_unat)

lemma ex_late_fields:
  "sm_last_update_us (smoothing ex_late) \<noteq> 0"
  "vlength (vsub (position ex_late) (sm_position (smoothing ex_late))) \<le> 10"
  "smoothing_delta_time ex_late = 2 / 10"
  by (simp_all add: ex_late_def example_aircraft_def example_smoothing_def vlength_def vsub_def
      smoothing_delta_time_def)

lemma ex_clock_back_fields:
  "sm_last_update_us (smoothing ex_clock_back) \<noteq> 0"
  "vlength (vsub (position ex_clock_back) (sm_position (smoothing ex_clock_back))) \<le> 10"
  "smoothing_delta_time ex_clock_back = 18446744073709551614 / 1000000"
  by (simp_all add: ex_clock_back_def example_aircraft_def example_smoothing_def vlength_def vsub_def
      smoothing_delta_time_def)

lemma smooth_update_accel:
  assumes "sm_last_update_us (smoothing a) \<noteq> 0"
    and "vlength (vsub (position a) (sm_position (smoothing a))) \<le> 10"
    and "\<not> (smoothing_delta_time a < 0 \<or> smoothing_delta_time a > 1 / 10)"
  shows "sm_accel_body (smoothing (smooth_sensors L a)) =
     (let delta_pos = vsub (position a) (sm_position (smoothing a));
          dvel = vadd (vsub (velocity_ef a) (sm_velocity_ef (smoothing a))) (vdiv delta_pos (1 / 10));
          accel_e0 = vadd (vdiv dvel (1 / 10))
                       (vadd (mat_mul_vec (dcm a) (accel_body a)) (vec 0 0 GRAVITY_MSS));
          accel_e = vec (constrain_float (vx accel_e0) (- (14 * GRAVITY_MSS)) (14 * GRAVITY_MSS))
                        (constrain_float (vy accel_e0) (- (14 * GRAVITY_MSS)) (14 * GRAVITY_MSS))
                        (constrain_float (vz accel_e0) (- (14 * GRAVITY_MSS)) (14 * GRAVITY_MSS))
      in mat_mul_vec (transposed (sm_rotation_b2e (smoothing a)))
           (vadd accel_e (vec 0 0 (- GRAVITY_MSS))))"
    and "sm_enabled (smoothing (smooth_sensors L a))"
  using assms by (simp_all add: smooth_sensors_def Let_def smoothing_delta_time_def)

lemma ex_same_time_fields:
  "sm_last_update_us (smoothing ex_same_time) \<noteq> 0"
  "vlength (vsub (position ex_same_time) (sm_position (smoothing ex_same_time))) \<le> 10"
  "smoothing_delta_time ex_same_time = 0"
  "sm_accel_body (smoothing ex_same_time) = vzero"
  by (simp_all add: ex_same_time_def example_aircraft_def example_smoothing_def vlength_def vsub_def
      smoothing_delta_time_def)

lemma smooth_sensors_shape:
  "\<exists>S. smooth_sensors L a = a\<lparr>smoothing := S\<rparr>"
proof -
  have "a = a\<lparr>smoothing := smoothing a\<rparr>" by simp
  then show ?thesis
    unfolding smooth_sensors_def Let_def
    by (metis (full_types))
qed


lemma smooth_sensors_enabled:
  "sm_enabled (smoothing a) \<Longrightarrow> sm_enabled (smoothing (smooth_sensors L a))"
  by (simp add: smooth_sensors_def Let_def)

lemma fields_attitude: "fdm_attitude (fill_fdm_fields L a fdm) = attitude_of L (dcm a)"
  by (simp add: fill_fdm_fields_def fdm_attitude_def attitude_of_def Let_def split: prod.split)

lemma fields_smoothed:
  assumes "sm_enabled (smoothing a)"
  shows "fdm_xAccel (fill_fdm_fields L a fdm) = vx (sm_accel_body (smoothing a))"
    and "fdm_yAccel (fill_fdm_fields L a fdm) = vy (sm_accel_body (smoothing a))"
    and "fdm_zAccel (fill_fdm_fields L a fdm) = vz (sm_accel_body (smoothing a))"
    and "fdm_rollRate (fill_fdm_fields L a fdm) = degrees (vx (sm_gyro (smoothing a)))"
    and "fdm_pitchRate (fill_fdm_fields L a fdm) = degrees (vy (sm_gyro (smoothing a)))"
    and "fdm_yawRate (fill_fdm_fields L a fdm) = degrees (vz (sm_gyro (smoothing a)))"
    and "fdm_speedN (fill_fdm_fields L a fdm) = vx (sm_velocity_ef (smoothing a))"
    and "fdm_speedE (fill_fdm_fields L a fdm) = vy (sm_velocity_ef (smoothing a))"
    and "fdm_speedD (fill_fdm_fields L a fdm) = vz (sm_velocity_ef (smoothing a))"
    and "fdm_latitude (fill_fdm_fields L a fdm) =
           real_of_int (sint (lat (sm_location (smoothing a)))) * (1 / 10000000)"
    and "fdm_longitude (fill_fdm_fields L a fdm) =
           real_of_int (sint (lng (sm_location (smoothing a)))) * (1 / 10000000)"
    and "fdm_altitude (fill_fdm_fields L a fdm) =
           real_of_int (sint (alt (sm_location (smoothing a)))) * (1 / 100)"
  using assms by (simp_all add: fill_fdm_fields_def Let_def split: prod.split)

lemma mounting_frame:
  assumes "fill_fdm_mounting L rot a = Inr a2"
  shows "smoothing a2 = smoothing a" and "dcm a2 = dcm a"
  using assms
  by (auto simp add: fill_fdm_mounting_def Let_def split: if_splits option.splits)

lemma mounting_smoothing:
  "fill_fdm_mounting L rot (a\<lparr>smoothing := S\<rparr>) =
     map_sum id (\<lambda>x. x\<lparr>smoothing := S\<rparr>) (fill_fdm_mounting L rot a)"
  by (simp add: fill_fdm_mounting_def Let_def split: option.splits)

lemma attitude_step:
  assumes "fill_fdm_attitude L rot a fdm = Inr fdm2"
  shows "fdm_xAccel fdm2 = fdm_xAccel fdm" "fdm_yAccel fdm2 = fdm_yAccel fdm"
    "fdm_zAccel fdm2 = fdm_zAccel fdm" "fdm_rollRate fdm2 = fdm_rollRate fdm"
    "fdm_pitchRate fdm2 = fdm_pitchRate fdm" "fdm_yawRate fdm2 = fdm_yawRate fdm"
    "fdm_speedN fdm2 = fdm_speedN fdm" "fdm_speedE fdm2 = fdm_speedE fdm"
    "fdm_speedD fdm2 = fdm_speedD fdm" "fdm_latitude fdm2 = fdm_latitude fdm"
    "fdm_longitude fdm2 = fdm_longitude fdm" "fdm_altitude fdm2 = fdm_altitude fdm"
  using assms
  by (auto simp add: fill_fdm_attitude_def Let_def split: if_splits option.splits prod.splits)

lemma attitude_step_value:
  "map_sum id fdm_attitude (fill_fdm_attitude L rot a fdm) =
     (if rot \<noteq> ROTATION_NONE then
        (case sitl a of
           None \<Rightarrow> Inl NullPointer
         | Some s \<Rightarrow> Inr (attitude_of L (mat_mul (dcm a) (ahrs_rotation_inv s))))
      else Inr (fdm_attitude fdm))"
  by (simp add: fill_fdm_attitude_def Let_def fdm_attitude_def attitude_of_def
      split: option.splits prod.splits)

lemma set_speedup_frame:
  "smoothing (set_speedup wall sp a) = smoothing a" "dcm (set_speedup wall sp a) = dcm a"
  "sitl (set_speedup wall sp a) = sitl a"
  by (simp_all add: set_speedup_def setup_frame_time_def Let_def)

lemma emit_cases:
  assumes "fill_fdm_emit L wall a fdm = Inr (a', fdm')"
  obtains (plain) s a3 where "ahrs_orientation a = None" "a3 = a" "fdm' = fill_fdm_fields L a fdm"
      "sitl a3 = Some s"
      "a' = a3 \<or> a' = (set_speedup wall (speedup s) a3)\<lparr>last_speedup := speedup s\<rparr>"
  | (mounted) rot s a3 where "ahrs_orientation a = Some rot"
      "fill_fdm_mounting L rot a = Inr a3"
      "fill_fdm_attitude L rot a3 (fill_fdm_fields L a fdm) = Inr fdm'"
      "sitl a3 = Some s"
      "a' = a3 \<or> a' = (set_speedup wall (speedup s) a3)\<lparr>last_speedup := speedup s\<rparr>"
  using assms
  by (auto simp add: fill_fdm_emit_def Let_def split: option.splits sum.splits if_splits)

lemma emit_result:
  assumes "fill_fdm_emit L wall a fdm = Inr (a', fdm')"
  shows "smoothing a' = smoothing a"
    and "reported_attitude L a = Inr (fdm_attitude fdm')"
    and "\<exists>s. sitl a' = Some s \<and>
           fdm_attitude fdm' =
             attitude_of L (if rotated_mounting a then mat_mul (dcm a) (ahrs_rotation_inv s)
                            else dcm a)"
    and "fdm_xAccel fdm' = fdm_xAccel (fill_fdm_fields L a fdm)"
    and "fdm_yAccel fdm' = fdm_yAccel (fill_fdm_fields L a fdm)"
    and "fdm_zAccel fdm' = fdm_zAccel (fill_fdm_fields L a fdm)"
    and "fdm_rollRate fdm' = fdm_rollRate (fill_fdm_fields L a fdm)"
    and "fdm_pitchRate fdm' = fdm_pitchRate (fill_fdm_fields L a fdm)"
    and "fdm_yawRate fdm' = fdm_yawRate (fill_fdm_fields L a fdm)"
    and "fdm_speedN fdm' = fdm_speedN (fill_fdm_fields L a fdm)"
    and "fdm_speedE fdm' = fdm_speedE (fill_fdm_fields L a fdm)"
    and "fdm_speedD fdm' = fdm_speedD (fill_fdm_fields L a fdm)"
    and "fdm_latitude fdm' = fdm_latitude (fill_fdm_fields L a fdm)"
    and "fdm_longitude fdm' = fdm_longitude (fill_fdm_fields L a fdm)"
    and "fdm_altitude fdm' = fdm_altitude (fill_fdm_fields L a fdm)"
proof -
  from assms show "smoothing a' = smoothing a"
    by (cases rule: emit_cases) (auto simp add: set_speedup_frame mounting_frame)
  from assms show "reported_attitude L a = Inr (fdm_attitude fdm')"
  proof (cases rule: emit_cases)
    case (plain s a3)
    then show ?thesis by (simp add: reported_attitude_def fields_attitude)
  next
    case (mounted rot s a3)
    from attitude_step_value [of L rot a3 "fill_fdm_fields L a fdm"] mounted
    show ?thesis
      by (simp add: reported_attitude_def fields_attitude mounting_frame split: if_splits)
  qed
  from assms show "\<exists>s. sitl a' = Some s \<and>
           fdm_attitude fdm' =
             attitude_of L (if rotated_mounting a then mat_mul (dcm a) (ahrs_rotation_inv s)
                            else dcm a)"
  proof (cases rule: emit_cases)
    case (plain s a3)
    then show ?thesis
      by (auto simp add: rotated_mounting_def fields_attitude set_speedup_frame)
  next
    case (mounted rot s a3)
    from attitude_step_value [of L rot a3 "fill_fdm_fields L a fdm"] mounted
    show ?thesis
      by (auto simp add: rotated_mounting_def fields_attitude set_speedup_frame mounting_frame
          split: if_splits)
  qed
  from assms show "fdm_xAccel fdm' = fdm_xAccel (fill_fdm_fields L a fdm)"
    and "fdm_yAccel fdm' = fdm_yAccel (fill_fdm_fields L a fdm)"
    and "fdm_zAccel fdm' = fdm_zAccel (fill_fdm_fields L a fdm)"
    and "fdm_rollRate fdm' = fdm_rollRate (fill_fdm_fields L a fdm)"
    and "fdm_pitchRate fdm' = fdm_pitchRate (fill_fdm_fields L a fdm)"
    and "fdm_yawRate fdm' = fdm_yawRate (fill_fdm_fields L a fdm)"
    and "fdm_speedN fdm' = fdm_speedN (fill_fdm_fields L a fdm)"
    and "fdm_speedE fdm' = fdm_speedE (fill_fdm_fields L a fdm)"
    and "fdm_speedD fdm' = fdm_speedD (fill_fdm_fields L a fdm)"
    and "fdm_latitude fdm' = fdm_latitude (fill_fdm_fields L a fdm)"
    and "fdm_longitude fdm' = fdm_longitude (fill_fdm_fields L a fdm)"
    and "fdm_altitude fdm' = fdm_altitude (fill_fdm_fields L a fdm)"
    by (cases rule: emit_cases; simp add: attitude_step)+
qed

lemma reported_attitude_smoothing:
  "reported_attitude L (a\<lparr>smoothing := S\<rparr>) = reported_attitude L a"
proof (cases "ahrs_orientation a")
  case None
  then show ?thesis by (simp add: reported_attitude_def)
next
  case (Some rot)
  then show ?thesis
    by (cases "fill_fdm_mounting L rot a")
       (simp_all add: reported_attitude_def mounting_smoothing cong: option.case_cong)
qed

lemma maybe_smooth_shape:
  "\<exists>S. (if use_smoothing a then smooth_sensors L a else a) = a\<lparr>smoothing := S\<rparr>"
proof (cases "use_smoothing a")
  case True
  then show ?thesis using smooth_sensors_shape [of L a] by simp
next
  case False
  have "a = a\<lparr>smoothing := smoothing a\<rparr>" by simp
  then show ?thesis using False by (simp only: if_False) (rule exI)
qed


lemma ex_smoothed_fields:
  "use_smoothing ex_smoothed = False" "ahrs_orientation ex_smoothed = None"
  "sitl ex_smoothed = Some example_sitl" "last_speedup ex_smoothed = 1"
  "sm_enabled (smoothing ex_smoothed)" "sm_accel_body (smoothing ex_smoothed) = vec 1 2 3"
  "dcm ex_smoothed = ref_from_euler 0 0 (pi / 2)"
  "sm_rotation_b2e (smoothing ex_smoothed) = midentity"
  by (simp_all add: ex_smoothed_def example_aircraft_def example_smoothing_def)

lemma ex_smoothed_run:
  "fill_fdm ap_math_ref 0 ex_smoothed example_fdm =
     Inr (ex_smoothed, fill_fdm_fields ap_math_ref ex_smoothed example_fdm)"
proof -
  have "is_equal ap_math_ref 1 (speedup example_sitl)"
    by (simp add: ap_math_ref_def example_sitl_def)
  then show ?thesis
    by (simp add: fill_fdm_def fill_fdm_emit_def Let_def ex_smoothed_fields)
qed

lemma vadd_disturbance:
  "vec (vx acc + d_x d) (vy acc + d_y d) (vz acc + d_z d) = vadd acc (disturbance_vec d)"
  by (simp add: vadd_def disturbance_vec_def)









lemma twist_behaviour_sitl [simp]: "sitl (twist_behaviour s a) = sitl a"
  by (simp add: twist_behaviour_def)










lemma disturbance_vec_start [simp]:
  "disturbance_vec (d\<lparr>d_start_ms := k\<rparr>) = disturbance_vec d"
  by (simp add: disturbance_vec_def)


lemma ex_in_wind_fields:
  "sitl (ex_in_wind w) \<noteq> None" "gyro (ex_in_wind w) = vzero" "dcm (ex_in_wind w) = midentity"
  "accel_body (ex_in_wind w) = vec 0 0 (- GRAVITY_MSS)"
  "velocity_ef (ex_in_wind w) = vzero" "wind_ef (ex_in_wind w) = vec w 0 0"
  by (simp_all add: ex_in_wind_def example_aircraft_def)

lemma ex_in_wind_air_bf:
  "vx (velocity_air_bf (integrated ap_math_ref vzero (ex_in_wind w))) = w"
proof -
  note f = ex_in_wind_fields
  have ae: "accel_earth_of ap_math_ref vzero (ex_in_wind w) = vzero"
    by (simp add: level_integrate f vec_000)
  have v: "velocity_ef (integrated ap_math_ref vzero (ex_in_wind w)) = vzero"
    by (simp add: integrate_velocity ae f vadd_def vscale_def vec_000)
  have d: "dcm (integrated ap_math_ref vzero (ex_in_wind w)) = midentity"
    by (simp add: level_integrate f)
  show ?thesis
    by (simp add: integrate_air v d f vadd_def mat_mul_vec_def transposed_def midentity_def vdot_def)
qed

lemma ref_pitched_step:
  "normalize_m ap_math_ref (rotate ap_math_ref pitched_dcm (vscale vzero k)) = pitched_dcm"
proof -
  have "(16::real) / 25 + 9 / 25 = 1" by simp
  then show ?thesis
    by (simp add: ap_math_ref_def ref_rotate_def ref_normalize_def Let_def pitched_dcm_def
      vzero_def vscale_def vadd_def vsub_def vcross_def vdot_def vlength_def)
qed

lemma ref_pitched_euler: "to_euler ap_math_ref pitched_dcm = (0, arcsin (3 / 5), 0)"
  by (simp add: ap_math_ref_def ref_to_euler_def ref_atan2_def pitched_dcm_def arcsin_minus)

lemma arcsin_three_fifths: "0 < arcsin (3 / 5 :: real)"
  using arcsin_less_arcsin [of 0 "3 / 5"] by simp

lemma ex_touchdown_fields:
  "sitl ex_touchdown \<noteq> None"
  "gyro ex_touchdown = vzero" "dcm ex_touchdown = pitched_dcm"
  "accel_body ex_touchdown = vec (3 / 5 * GRAVITY_MSS) 0 (- (4 / 5) * GRAVITY_MSS)"
  "velocity_ef ex_touchdown = vec 3 0 (9 / 2)" "position ex_touchdown = vec 0 0 (- (2 / 1000))"
  "frame_dt ex_touchdown = 833 / 1000000"
  "ground_level ex_touchdown = 10" "frame_height ex_touchdown = 0"
  "alt (home ex_touchdown) = 1000" "ground_height_difference ex_touchdown = 0"
  "ground_behavior ex_touchdown = GROUND_BEHAVIOR_FWD_ONLY"
  "\<not> on_ground ex_touchdown"
  by (simp_all add: ex_touchdown_def example_aircraft_def frame_dt_def ground_height_difference_def
      example_sitl_def example_home_def on_ground_def hagl_def)

lemma ex_touchdown_integrated:
  "velocity_ef (integrated ap_math_ref vzero ex_touchdown) = vec 3 0 (9 / 2)"
  "on_ground (integrated ap_math_ref vzero ex_touchdown)"
  "dcm (integrated ap_math_ref vzero ex_touchdown) = pitched_dcm"
proof -
  let ?a = ex_touchdown
  note f = ex_touchdown_fields
  have g: "gyro (integrated ap_math_ref vzero ?a) = vzero"
    by (simp add: integrate_gyro f constrain_float_zero vec_000)
  show d: "dcm (integrated ap_math_ref vzero ?a) = pitched_dcm"
    by (simp add: integrate_dcm g f ref_pitched_step)
  have ae: "accel_earth_of ap_math_ref vzero ?a = vzero"
    by (simp add: integrate_accel_earth d f Let_def pitched_dcm_def mat_mul_vec_def vdot_def
        vadd_def vec_000 GRAVITY_MSS_def)
  show v: "velocity_ef (integrated ap_math_ref vzero ?a) = vec 3 0 (9 / 2)"
    by (simp add: integrate_velocity ae f vadd_def vscale_def)
  have p: "vz (position (integrated ap_math_ref vzero ?a)) = - (2 / 1000) + 9 / 2 * (833 / 1000000)"
    by (simp add: integrate_position v f vadd_def vscale_def)
  have gh: "ground_height_difference (integrated ap_math_ref vzero ?a) = ground_height_difference ?a"
    by (rule ground_height_difference_cong) (simp_all add: integrate_static)
  show "on_ground (integrated ap_math_ref vzero ?a)"
    by (simp add: on_ground_def hagl_def p gh integrate_static f)
qed

lemma ex_touchdown_speed:
  "\<not> vlength (vec 3 0 (9 / 2)) < 5" "ground_speed_spec (vec 3 0 (9 / 2)) = 3"
proof -
  have "(5::real) \<le> sqrt (117 / 4)" by (rule real_le_rsqrt) (simp add: power2_eq_square)
  then show "\<not> vlength (vec 3 0 (9 / 2)) < 5" by (simp add: vlength_def)
  have "sqrt (3 * 3) = \<bar>3 :: real\<bar>" by (rule real_sqrt_abs2)
  then show "ground_speed_spec (vec 3 0 (9 / 2)) = 3" by (simp add: ground_speed_spec_def)
qed

subsection \<open>The angular rate clamp\<close>

text \<open>Claim C4. In every call of \<open>update_dynamics\<close>, for every state and every
  rotational acceleration, the body angular rate after the integration of
  \<open>rot_accel * delta_time\<close> is, on each axis, the integrated value clamped to the interval
  from -2000 to +2000 degrees per second; an integrated value above the upper bound
  gives exactly the upper bound, one below the lower bound exactly the lower bound. When
  the parameter object is present the call returns, with this rate stored in
  \<open>gyro_prev\<close>; the rate \<open>gyro\<close> it leaves is this one, or zero when the ground
  handling cleared it.\<close>

theorem gyro_clamp:
  "gyro (integrated L rot a) =
     vec (constrain_float (vx (gyro a) + vx rot * frame_dt a) (- radians 2000) (radians 2000))
         (constrain_float (vy (gyro a) + vy rot * frame_dt a) (- radians 2000) (radians 2000))
         (constrain_float (vz (gyro a) + vz rot * frame_dt a) (- radians 2000) (radians 2000)) \<and>
   \<bar>vx (gyro (integrated L rot a))\<bar> \<le> radians 2000 \<and>
   \<bar>vy (gyro (integrated L rot a))\<bar> \<le> radians 2000 \<and>
   \<bar>vz (gyro (integrated L rot a))\<bar> \<le> radians 2000 \<and>
   (radians 2000 < vx (gyro a) + vx rot * frame_dt a \<longrightarrow>
      vx (gyro (integrated L rot a)) = radians 2000) \<and>
   (radians 2000 < vy (gyro a) + vy rot * frame_dt a \<longrightarrow>
      vy (gyro (integrated L rot a)) = radians 2000) \<and>
   (radians 2000 < vz (gyro a) + vz rot * frame_dt a \<longrightarrow>
      vz (gyro (integrated L rot a)) = radians 2000) \<and>
   (vx (gyro a) + vx rot * frame_dt a < - radians 2000 \<longrightarrow>
      vx (gyro (integrated L rot a)) = - radians 2000) \<and>
   (vy (gyro a) + vy rot * frame_dt a < - radians 2000 \<longrightarrow>
      vy (gyro (integrated L rot a)) = - radians 2000) \<and>
   (vz (gyro a) + vz rot * frame_dt a < - radians 2000 \<longrightarrow>
      vz (gyro (integrated L rot a)) = - radians 2000) \<and>
   (sitl a \<noteq> None \<longrightarrow>
      (\<exists>a'. update_dynamics L now rot a = Inr a' \<and>
            gyro_prev a' = gyro (integrated L rot a) \<and>
            (gyro a' = gyro_prev a' \<or> gyro a' = vzero)))"
proof -
  note b = constrain_float_bounds [OF radians_2000]
  have bounds: "\<bar>vx (gyro (integrated L rot a))\<bar> \<le> radians 2000"
    "\<bar>vy (gyro (integrated L rot a))\<bar> \<le> radians 2000"
    "\<bar>vz (gyro (integrated L rot a))\<bar> \<le> radians 2000"
    using b [of "vx (gyro a) + vx rot * frame_dt a"] b [of "vy (gyro a) + vy rot * frame_dt a"]
      b [of "vz (gyro a) + vz rot * frame_dt a"]
    by (simp_all add: integrate_gyro abs_le_iff)
  have final: "\<exists>a'. update_dynamics L now rot a = Inr a' \<and>
            gyro_prev a' = gyro (integrated L rot a) \<and>
            (gyro a' = gyro_prev a' \<or> gyro a' = vzero)" if "sitl a \<noteq> None"
  proof -
    from update_dynamics_result [OF that, of L now rot]
    obtain a' where r: "update_dynamics L now rot a = Inr a'"
      and p: "gyro_prev a' = gyro (integrated L rot a)"
      and g: "gyro a' = gyro (update_dynamics_ground L now (accel_earth_of L rot a)
                (on_ground a) (integrated L rot a))"
      by blast
    have "gyro a' = gyro_prev a' \<or> gyro a' = vzero"
      using ground_gyro [of L now "accel_earth_of L rot a" "on_ground a" "integrated L rot a"]
      by (simp add: g p)
    with r p show ?thesis by blast
  qed
  have val: "gyro (integrated L rot a) =
     vec (constrain_float (vx (gyro a) + vx rot * frame_dt a) (- radians 2000) (radians 2000))
         (constrain_float (vy (gyro a) + vy rot * frame_dt a) (- radians 2000) (radians 2000))
         (constrain_float (vz (gyro a) + vz rot * frame_dt a) (- radians 2000) (radians 2000))"
    by (rule integrate_gyro(1))
  have up: "vx (gyro (integrated L rot a)) = radians 2000"
    if "radians 2000 < vx (gyro a) + vx rot * frame_dt a"
    using that by (simp add: val constrain_float_above [OF radians_2000])
  have upy: "vy (gyro (integrated L rot a)) = radians 2000"
    if "radians 2000 < vy (gyro a) + vy rot * frame_dt a"
    using that by (simp add: val constrain_float_above [OF radians_2000])
  have upz: "vz (gyro (integrated L rot a)) = radians 2000"
    if "radians 2000 < vz (gyro a) + vz rot * frame_dt a"
    using that by (simp add: val constrain_float_above [OF radians_2000])
  have dn: "vx (gyro (integrated L rot a)) = - radians 2000"
    if "vx (gyro a) + vx rot * frame_dt a < - radians 2000"
    using that by (simp add: val constrain_float_below)
  have dny: "vy (gyro (integrated L rot a)) = - radians 2000"
    if "vy (gyro a) + vy rot * frame_dt a < - radians 2000"
    using that by (simp add: val constrain_float_below)
  have dnz: "vz (gyro (integrated L rot a)) = - radians 2000"
    if "vz (gyro a) + vz rot * frame_dt a < - radians 2000"
    using that by (simp add: val constrain_float_below)
  show ?thesis
    by (intro conjI impI) (rule val bounds | erule up upy upz dn dny dnz final)+
qed

theorem gyro_clamp_witness:
  "radians 2000 < vx (gyro example_aircraft) + vx (vec 100000 0 0) * frame_dt example_aircraft \<and>
   vx (gyro (integrated ap_math_ref (vec 100000 0 0) example_aircraft)) = radians 2000 \<and>
   vx (gyro example_aircraft) + vx (vec (- 100000) 0 0) * frame_dt example_aircraft
     < - radians 2000 \<and>
   vx (gyro (integrated ap_math_ref (vec (- 100000) 0 0) example_aircraft)) = - radians 2000 \<and>
   sitl example_aircraft \<noteq> None \<and>
   (\<exists>a'. update_dynamics ap_math_ref 0 (vec 100000 0 0) example_aircraft = Inr a' \<and>
         gyro_prev a' = gyro (integrated ap_math_ref (vec 100000 0 0) example_aircraft))"
proof -
  have up: "radians 2000 < vx (gyro example_aircraft) + vx (vec 100000 0 0) * frame_dt example_aircraft"
    using pi_less_4 by (simp add: example_aircraft_def frame_dt_def radians_def)
  have dn: "vx (gyro example_aircraft) + vx (vec (- 100000) 0 0) * frame_dt example_aircraft
     < - radians 2000"
    using pi_less_4 by (simp add: example_aircraft_def frame_dt_def radians_def)
  note t1 = gyro_clamp [of ap_math_ref "vec 100000 0 0" example_aircraft 0]
  note t2 = gyro_clamp [of ap_math_ref "vec (- 100000) 0 0" example_aircraft 0]
  have 1: "vx (gyro (integrated ap_math_ref (vec 100000 0 0) example_aircraft)) = radians 2000"
    using t1 up by blast
  have 2: "vx (gyro (integrated ap_math_ref (vec (- 100000) 0 0) example_aircraft)) = - radians 2000"
    using t2 dn by blast
  have 3: "\<exists>a'. update_dynamics ap_math_ref 0 (vec 100000 0 0) example_aircraft = Inr a' \<and>
         gyro_prev a' = gyro (integrated ap_math_ref (vec 100000 0 0) example_aircraft)"
    using t1 example_sitl_present by blast
  show ?thesis
    by (intro conjI) (rule up dn 1 2 3 example_sitl_present)+
qed

subsection \<open>The pitot airspeed\<close>

text \<open>Claim C5. For every state and every input, the forward pitot airspeed that
  \<open>update_dynamics\<close> computes is the body-x component of the air-relative velocity
  clamped to the interval from 0 to 120, never negative and never above 120, where the
  air-relative velocity in the body frame is the transposed attitude matrix applied to
  the earth-frame velocity plus \<open>wind_ef\<close>, and the attitude, the angular rate, the
  velocity and the earth-frame acceleration are those the integration computes from the
  state at entry. When the parameter object is present the call returns, with this
  airspeed and this air-relative velocity in the state.\<close>

theorem pitot_bound:
  "airspeed_pitot (integrated L rot a) =
     constrain_float (vx (velocity_air_bf (integrated L rot a))) 0 120 \<and>
   0 \<le> airspeed_pitot (integrated L rot a) \<and> airspeed_pitot (integrated L rot a) \<le> 120 \<and>
   velocity_air_bf (integrated L rot a) =
     mat_mul_vec (transposed (dcm (integrated L rot a)))
       (vadd (velocity_ef (integrated L rot a)) (wind_ef a)) \<and>
   dcm (integrated L rot a) =
     normalize_m L (rotate L (dcm a) (vscale (gyro (integrated L rot a)) (frame_dt a))) \<and>
   gyro (integrated L rot a) =
     vec (constrain_float (vx (gyro a) + vx rot * frame_dt a) (- radians 2000) (radians 2000))
         (constrain_float (vy (gyro a) + vy rot * frame_dt a) (- radians 2000) (radians 2000))
         (constrain_float (vz (gyro a) + vz rot * frame_dt a) (- radians 2000) (radians 2000)) \<and>
   velocity_ef (integrated L rot a) =
     vadd (velocity_ef a) (vscale (accel_earth_of L rot a) (frame_dt a)) \<and>
   accel_earth_of L rot a =
     (let ae = vadd (mat_mul_vec (dcm (integrated L rot a)) (accel_body a))
                 (vec 0 0 GRAVITY_MSS)
      in if on_ground a \<and> vz ae > 0 then ae\<lparr>vz := 0\<rparr> else ae) \<and>
   (sitl a \<noteq> None \<longrightarrow>
      (\<exists>a'. update_dynamics L now rot a = Inr a' \<and>
            velocity_air_bf a' = velocity_air_bf (integrated L rot a) \<and>
            airspeed_pitot a' = airspeed_pitot (integrated L rot a)))"
proof -
  have fin: "\<exists>a'. update_dynamics L now rot a = Inr a' \<and>
            velocity_air_bf a' = velocity_air_bf (integrated L rot a) \<and>
            airspeed_pitot a' = airspeed_pitot (integrated L rot a)" if "sitl a \<noteq> None"
    using update_dynamics_result [OF that, of L now rot] by metis
  have p: "airspeed_pitot (integrated L rot a) =
     constrain_float (vx (velocity_air_bf (integrated L rot a))) 0 120"
    by (rule integrate_air(4))
  have b: "0 \<le> airspeed_pitot (integrated L rot a)" "airspeed_pitot (integrated L rot a) \<le> 120"
    using constrain_float_bounds [of 0 120 "vx (velocity_air_bf (integrated L rot a))"]
    by (simp_all add: p)
  have bf: "velocity_air_bf (integrated L rot a) =
     mat_mul_vec (transposed (dcm (integrated L rot a)))
       (vadd (velocity_ef (integrated L rot a)) (wind_ef a))"
    by (simp add: integrate_air(2) integrate_air(1))
  show ?thesis
    by (intro conjI impI)
       (rule p b bf integrate_dcm integrate_gyro(1) integrate_velocity integrate_accel_earth
          | erule fin)+
qed

theorem pitot_bound_witness:
  "sitl (ex_in_wind 200) \<noteq> None \<and>
   (\<exists>a'. update_dynamics ap_math_ref 0 vzero (ex_in_wind 200) = Inr a' \<and>
         vx (velocity_air_bf a') = 200 \<and> airspeed_pitot a' = 120) \<and>
   sitl (ex_in_wind 30) \<noteq> None \<and>
   (\<exists>a'. update_dynamics ap_math_ref 0 vzero (ex_in_wind 30) = Inr a' \<and>
         vx (velocity_air_bf a') = 30 \<and> airspeed_pitot a' = 30) \<and>
   sitl (ex_in_wind (- 50)) \<noteq> None \<and>
   (\<exists>a'. update_dynamics ap_math_ref 0 vzero (ex_in_wind (- 50)) = Inr a' \<and>
         vx (velocity_air_bf a') = - 50 \<and> airspeed_pitot a' = 0)"
proof -
  have r: "\<exists>a'. update_dynamics ap_math_ref 0 vzero (ex_in_wind w) = Inr a' \<and>
         vx (velocity_air_bf a') = w \<and> airspeed_pitot a' = constrain_float w 0 120" for w
  proof -
    note t = pitot_bound [of ap_math_ref vzero "ex_in_wind w" 0]
    from t ex_in_wind_fields(1) [of w]
    obtain a' where "update_dynamics ap_math_ref 0 vzero (ex_in_wind w) = Inr a'"
      and "velocity_air_bf a' = velocity_air_bf (integrated ap_math_ref vzero (ex_in_wind w))"
      and "airspeed_pitot a' = airspeed_pitot (integrated ap_math_ref vzero (ex_in_wind w))"
      by blast
    moreover from t have "airspeed_pitot (integrated ap_math_ref vzero (ex_in_wind w)) =
      constrain_float (vx (velocity_air_bf (integrated ap_math_ref vzero (ex_in_wind w)))) 0 120"
      by blast
    ultimately show ?thesis by (simp add: ex_in_wind_air_bf)
  qed
  have c: "constrain_float 200 0 120 = 120" "constrain_float 30 0 120 = 30"
    "constrain_float (- 50) 0 120 = 0"
    by (simp_all add: constrain_float_def)
  show ?thesis
    using r [of 200] r [of 30] r [of "- 50"]
    by (simp add: c ex_in_wind_fields)
qed

subsection \<open>Air-relative velocity and airspeed\<close>

text \<open>Claim C1, as amended. In every call of \<open>update_dynamics\<close>, the air-relative
  velocity in the earth frame is the earth-frame velocity after the integration PLUS the
  vector \<open>wind_ef\<close> (the code adds the wind vector, it does not subtract it), and the
  airspeed is the magnitude of that air-relative velocity. When the parameter object is
  present the call returns, with these two values in the state.\<close>

theorem air_velocity_adds_wind:
  "velocity_air_ef (integrated L rot a) =
     vadd (velocity_ef (integrated L rot a)) (wind_ef a) \<and>
   airspeed (integrated L rot a) = vlength (velocity_air_ef (integrated L rot a)) \<and>
   (sitl a \<noteq> None \<longrightarrow>
      (\<exists>a'. update_dynamics L now rot a = Inr a' \<and>
            velocity_air_ef a' = velocity_air_ef (integrated L rot a) \<and>
            airspeed a' = airspeed (integrated L rot a)))"
proof -
  have "\<exists>a'. update_dynamics L now rot a = Inr a' \<and>
            velocity_air_ef a' = velocity_air_ef (integrated L rot a) \<and>
            airspeed a' = airspeed (integrated L rot a)" if "sitl a \<noteq> None"
    using update_dynamics_result [OF that, of L now rot] by metis
  then show ?thesis by (simp add: integrate_air)
qed

theorem air_velocity_adds_wind_witness:
  "sitl ex_airborne_wind \<noteq> None \<and>
   (\<exists>a'. update_dynamics ap_math_ref 0 vzero ex_airborne_wind = Inr a' \<and>
         velocity_air_ef a' =
           vadd (velocity_ef (integrated ap_math_ref vzero ex_airborne_wind)) (vec 1 0 0) \<and>
         airspeed a' = vlength (velocity_air_ef a'))"
  using air_velocity_adds_wind [of ap_math_ref vzero ex_airborne_wind 0]
  by (auto simp add: ex_airborne_wind_fields)

text \<open>The claim as stated fails: airborne at rest in the wind \<open>(1, 0, 0)\<close>, the
  air-relative velocity is \<open>(1, 0, 0)\<close>, while the velocity minus the wind is
  \<open>(-1, 0, 0)\<close>.\<close>

theorem air_velocity_minus_wind_counterexample:
  "\<not> isl ex_airborne_wind_result \<and>
   velocity_ef (projr ex_airborne_wind_result) = vzero \<and>
   wind_ef (projr ex_airborne_wind_result) = vec 1 0 0 \<and>
   velocity_air_ef (projr ex_airborne_wind_result) = vec 1 0 0 \<and>
   velocity_air_ef (projr ex_airborne_wind_result) \<noteq>
     vsub (velocity_ef (projr ex_airborne_wind_result)) (wind_ef (projr ex_airborne_wind_result))"
proof -
  let ?a = ex_airborne_wind
  note f = ex_airborne_wind_fields
  have ae: "accel_earth_of ap_math_ref vzero ?a = vzero"
    by (simp add: level_integrate f on_ground_def vec_000)
  have v: "velocity_ef (integrated ap_math_ref vzero ?a) = vzero"
    by (simp add: integrate_velocity ae f vadd_def vscale_def vec_000)
  have p: "position (integrated ap_math_ref vzero ?a) = vec 0 0 (- 100)"
    by (simp add: integrate_position v f vadd_def vscale_def)
  have "hagl (integrated ap_math_ref vzero ?a) = hagl ?a"
    by (rule hagl_cong) (simp_all add: integrate_static p f)
  then have air: "\<not> on_ground (integrated ap_math_ref vzero ?a)"
    by (simp add: on_ground_def f)
  from update_dynamics_result [OF f(1), of ap_math_ref 0 vzero]
  obtain a' where r: "update_dynamics ap_math_ref 0 vzero ?a = Inr a'"
    and 1: "velocity_air_ef a' = velocity_air_ef (integrated ap_math_ref vzero ?a)"
    and 2: "velocity_ef a' = velocity_ef (update_dynamics_ground ap_math_ref 0
              (accel_earth_of ap_math_ref vzero ?a) (on_ground ?a) (integrated ap_math_ref vzero ?a))"
    and 3: "wind_ef a' = wind_ef ?a"
    by blast
  have "velocity_ef a' = vzero"
    by (simp add: 2 ground_airborne [OF air] v)
  moreover have "velocity_air_ef a' = vec 1 0 0"
    by (simp add: 1 integrate_air v f vadd_def)
  ultimately show ?thesis
    by (simp add: ex_airborne_wind_result_def r 3 f vsub_def vec_def)
qed

subsection \<open>The ground clamp\<close>

text \<open>Claim C2, as amended. In every call of \<open>update_dynamics\<close> in which the vehicle is
  in ground contact after the integration of the position, the vertical position is
  set exactly to \<open>-(ground_level + frame_height - home_alt + terrain_correction)\<close>,
  whatever the vertical velocity, and the height above ground level is then 0. Contact
  is detected exactly when the height above ground level, which is the height
  \<open>- position.z\<close> PLUS the home altitude minus the ground level minus the frame height
  minus the terrain correction, is at most 1 mm.\<close>

theorem ground_clamp:
  assumes "sitl a \<noteq> None" and "on_ground (integrated L rot a)"
  shows "(\<exists>a'. update_dynamics L now rot a = Inr a' \<and>
            vz (position a') =
              - (ground_level a + frame_height a
                 - real_of_int (sint (alt (home a))) * (1 / 100) + ground_height_difference a) \<and>
            hagl a' = 0) \<and>
         on_ground b =
           ((- vz (position b)) + real_of_int (sint (alt (home b))) * (1 / 100)
              - ground_level b - frame_height b - ground_height_difference b \<le> 1 / 1000)"
proof -
  from ground_snap [OF assms, of now] obtain a' where
    "update_dynamics L now rot a = Inr a'"
    "vz (position a') =
           - (ground_level a + frame_height a
              - real_of_int (sint (alt (home a))) * (1 / 100) + ground_height_difference a)"
    "hagl a' = 0"
    by blast
  then show ?thesis by (simp add: on_ground_def hagl_def)
qed

theorem ground_clamp_witness:
  "sitl example_aircraft \<noteq> None \<and> on_ground (integrated ap_math_ref vzero example_aircraft) \<and>
   (\<exists>a'. update_dynamics ap_math_ref 0 vzero example_aircraft = Inr a' \<and>
         vz (position a') = 0 \<and> hagl a' = 0)"
  using ground_clamp [OF example_sitl_present example_on_ground_after, of 0 example_aircraft,
      THEN conjunct1]
  by (simp add: example_sitl_present example_on_ground_after example_fields)

text \<open>The claim as stated fails on the formula of the height above ground level: 5 m
  above the ground of a home at 10 m altitude, the height of the specification's
  wording (with the home altitude subtracted) is -15 m, a contact, while the code
  computes 5 m, no contact.\<close>

theorem hagl_minus_home_altitude_counterexample:
  "hagl_spec ex_above_ground \<le> 1 / 1000 \<and> \<not> on_ground ex_above_ground \<and>
   hagl ex_above_ground = 5"
  by (simp add: hagl_spec_def on_ground_def hagl_def ground_height_difference_def
      ex_above_ground_def example_aircraft_def example_sitl_def example_home_def)

subsection \<open>Ground contact of a tailsitter\<close>

text \<open>Claim C3, as amended. In every call of \<open>update_dynamics\<close> in ground contact (after
  the integration of the position) with the ground behaviour \<open>Tailsitter\<close>, the attitude
  is set to roll 0, pitch +90 degrees and the yaw it had, the angular rate is zeroed and
  smoothing is switched on; the velocity is zeroed exactly when the vertical earth-frame
  acceleration \<open>accel_earth.z\<close> (positive downwards) is above -1.1 g, and is left as
  integrated when \<open>accel_earth.z\<close> is at most -1.1 g, that is, when the vehicle
  accelerates UPWARDS by at least 1.1 g. In particular the velocity IS zeroed at any
  acceleration above -1.1 g and is NOT zeroed at -1.2 g.\<close>

theorem tailsitter_contact:
  assumes "sitl a \<noteq> None" and "on_ground (integrated L rot a)"
    and "ground_behavior a = GROUND_BEHAVIOR_TAILSITTER"
  shows "\<exists>a'. update_dynamics L now rot a = Inr a' \<and>
           dcm a' = from_euler L 0 (radians 90) (snd (snd (to_euler L (dcm (integrated L rot a))))) \<and>
           gyro a' = vzero \<and>
           use_smoothing a' \<and>
           velocity_ef a' =
             (if vz (accel_earth_of L rot a) > - (11 / 10) * GRAVITY_MSS then vzero
              else velocity_ef (integrated L rot a))"
proof -
  have gb: "ground_behavior (integrated L rot a) = GROUND_BEHAVIOR_TAILSITTER"
    by (simp add: integrate_static assms(3))
  from update_dynamics_result [OF assms(1), of L now rot]
  obtain a' where "update_dynamics L now rot a = Inr a'"
    and "gyro a' = gyro (update_dynamics_ground L now (accel_earth_of L rot a) (on_ground a) (integrated L rot a))"
    and "dcm a' = dcm (update_dynamics_ground L now (accel_earth_of L rot a) (on_ground a) (integrated L rot a))"
    and "velocity_ef a' = velocity_ef (update_dynamics_ground L now (accel_earth_of L rot a) (on_ground a) (integrated L rot a))"
    and "use_smoothing a' = use_smoothing (update_dynamics_ground L now (accel_earth_of L rot a) (on_ground a) (integrated L rot a))"
    by blast
  then show ?thesis
    by (simp add: ground_tailsitter [OF assms(2) gb])
qed

theorem tailsitter_contact_witness:
  "sitl ex_tailsitter \<noteq> None \<and> on_ground (integrated ap_math_ref vzero ex_tailsitter) \<and>
   ground_behavior ex_tailsitter = GROUND_BEHAVIOR_TAILSITTER \<and>
   (\<exists>a'. update_dynamics ap_math_ref 0 vzero ex_tailsitter = Inr a' \<and>
         dcm a' = from_euler ap_math_ref 0 (radians 90) 0 \<and>
         gyro a' = vzero \<and>
         velocity_ef a' = vec 0 0 (- (12 / 10) * GRAVITY_MSS * (833 / 1000000)))"
  using tailsitter_contact [OF ex_tailsitter_fields(1) ex_tailsitter_integrated(3)
      ex_tailsitter_fields(12), of 0]
  by (simp add: ex_tailsitter_fields ex_tailsitter_integrated ref_yaw_identity GRAVITY_MSS_def)
    blast

text \<open>The claim as stated fails: a tailsitter in contact whose vertical acceleration is
  -1.2 g keeps its velocity, here 1.2 g times one frame upwards, while the claim says it
  is zeroed there.\<close>

theorem tailsitter_velocity_counterexample:
  "\<not> isl ex_tailsitter_result \<and>
   on_ground (integrated ap_math_ref vzero ex_tailsitter) \<and>
   vz (accel_earth_of ap_math_ref vzero ex_tailsitter) = - (12 / 10) * GRAVITY_MSS \<and>
   velocity_ef (projr ex_tailsitter_result) = vec 0 0 (- (12 / 10) * GRAVITY_MSS * (833 / 1000000)) \<and>
   velocity_ef (projr ex_tailsitter_result) \<noteq> vzero"
proof -
  let ?a = ex_tailsitter
  note f = ex_tailsitter_fields and i = ex_tailsitter_integrated
  have gb: "ground_behavior (integrated ap_math_ref vzero ?a) = GROUND_BEHAVIOR_TAILSITTER"
    by (simp add: integrate_static f)
  from update_dynamics_result [OF f(1), of ap_math_ref 0 vzero]
  obtain a' where r: "update_dynamics ap_math_ref 0 vzero ?a = Inr a'"
    and v: "velocity_ef a' = velocity_ef (update_dynamics_ground ap_math_ref 0
              (accel_earth_of ap_math_ref vzero ?a) (on_ground ?a) (integrated ap_math_ref vzero ?a))"
    by blast
  have "velocity_ef a' = vec 0 0 (- (12 / 10) * GRAVITY_MSS * (833 / 1000000))"
    by (simp add: v ground_tailsitter(4) [OF i(3) gb] i GRAVITY_MSS_def)
  then show ?thesis
    by (simp add: ex_tailsitter_result_def r i vec_neq_vzero GRAVITY_MSS_def)
qed

subsection \<open>Ground contact of a forward-only vehicle\<close>

text \<open>Claim C8, as amended. In every call of \<open>update_dynamics\<close> in ground contact (after
  the integration of the position) with the ground behaviour \<open>ForwardOnly\<close>: the
  attitude is set to roll 0, the yaw it had, and a pitch that is exactly 0 when the
  magnitude of the earth-frame velocity, vertical component included, is below 5 m/s and
  the pitch it had clamped to be non-negative otherwise; the velocity is taken to the
  body frame of this attitude, its lateral (body-y) component is zeroed and a negative
  forward (body-x) component is set to zero, and it is taken back to the earth frame,
  where a downward component is removed; the angular rate is zeroed and smoothing is
  switched on. Whenever the new attitude matrix is orthonormal with a level body-y axis,
  the velocity that results has no lateral component in the body frame, and with a nose
  not below the horizon its forward component is not negative.\<close>

theorem forward_only_contact:
  assumes "sitl a \<noteq> None" and "on_ground (integrated L rot a)"
    and "ground_behavior a = GROUND_BEHAVIOR_FWD_ONLY"
  shows "\<exists>a'. update_dynamics L now rot a = Inr a' \<and>
           dcm a' =
             from_euler L 0
               (if vlength (velocity_ef (integrated L rot a)) < 5 then 0
                else MAX_f (fst (snd (to_euler L (dcm (integrated L rot a))))) 0)
               (snd (snd (to_euler L (dcm (integrated L rot a))))) \<and>
           gyro a' = vzero \<and>
           use_smoothing a' \<and>
           velocity_ef a' =
             (let v_bf0 = mat_mul_vec (transposed (dcm a')) (velocity_ef (integrated L rot a));
                  v_bf = vec (if vx v_bf0 < 0 then 0 else vx v_bf0) 0 (vz v_bf0);
                  v1 = mat_mul_vec (dcm a') v_bf
              in if vz v1 > 0 then v1\<lparr>vz := 0\<rparr> else v1) \<and>
           (mat_mul (transposed (dcm a')) (dcm a') = midentity \<and> vy (mc (dcm a')) = 0 \<longrightarrow>
              vy (mat_mul_vec (transposed (dcm a')) (velocity_ef a')) = 0) \<and>
           (mat_mul (transposed (dcm a')) (dcm a') = midentity \<and> vx (mc (dcm a')) \<le> 0 \<longrightarrow>
              0 \<le> vx (mat_mul_vec (transposed (dcm a')) (velocity_ef a')))"
proof -
  let ?a1 = "integrated L rot a"
  let ?g = "update_dynamics_ground L now (accel_earth_of L rot a) (on_ground a) ?a1"
  have gb: "ground_behavior ?a1 = GROUND_BEHAVIOR_FWD_ONLY"
    by (simp add: integrate_static assms(3))
  note fo = ground_fwd_only [OF assms(2) gb, of L now "accel_earth_of L rot a" "on_ground a"]
  from update_dynamics_result [OF assms(1), of L now rot]
  obtain a' where r: "update_dynamics L now rot a = Inr a'"
    and g: "gyro a' = gyro ?g" and d: "dcm a' = dcm ?g"
    and v: "velocity_ef a' = velocity_ef ?g" and u: "use_smoothing a' = use_smoothing ?g"
    by blast
  have vel: "velocity_ef a' =
             (let v_bf0 = mat_mul_vec (transposed (dcm a')) (velocity_ef ?a1);
                  v_bf = vec (if vx v_bf0 < 0 then 0 else vx v_bf0) 0 (vz v_bf0);
                  v1 = mat_mul_vec (dcm a') v_bf
              in if vz v1 > 0 then v1\<lparr>vz := 0\<rparr> else v1)"
    using fo(4) by (simp add: v d Let_def cong: if_cong)
  have "dcm a' =
             from_euler L 0
               (if vlength (velocity_ef ?a1) < 5 then 0
                else MAX_f (fst (snd (to_euler L (dcm ?a1)))) 0)
               (snd (snd (to_euler L (dcm ?a1))))"
    unfolding d by (rule fo(1))
  moreover have "gyro a' = vzero" "use_smoothing a'"
    by (simp_all add: g u fo)
  moreover note fwd_only_body_velocity [OF _ vel]
  ultimately show ?thesis using r vel by blast
qed

theorem forward_only_contact_witness:
  "sitl ex_fwd_only \<noteq> None \<and> on_ground (integrated ap_math_ref vzero ex_fwd_only) \<and>
   ground_behavior ex_fwd_only = GROUND_BEHAVIOR_FWD_ONLY \<and>
   vlength (velocity_ef (integrated ap_math_ref vzero ex_fwd_only)) < 5 \<and>
   (\<exists>a'. update_dynamics ap_math_ref 0 vzero ex_fwd_only = Inr a' \<and>
         dcm a' = midentity \<and> gyro a' = vzero \<and> use_smoothing a' \<and>
         mat_mul (transposed (dcm a')) (dcm a') = midentity \<and>
         vy (mc (dcm a')) = 0 \<and> vx (mc (dcm a')) \<le> 0 \<and>
         vy (mat_mul_vec (transposed (dcm a')) (velocity_ef a')) = 0 \<and>
         0 \<le> vx (mat_mul_vec (transposed (dcm a')) (velocity_ef a'))) \<and>
   sitl ex_touchdown \<noteq> None \<and> on_ground (integrated ap_math_ref vzero ex_touchdown) \<and>
   ground_behavior ex_touchdown = GROUND_BEHAVIOR_FWD_ONLY \<and>
   \<not> vlength (velocity_ef (integrated ap_math_ref vzero ex_touchdown)) < 5 \<and>
   (\<exists>a'. update_dynamics ap_math_ref 0 vzero ex_touchdown = Inr a' \<and>
         dcm a' = from_euler ap_math_ref 0 (arcsin (3 / 5)) 0 \<and>
         gyro a' = vzero \<and> use_smoothing a')"
proof -
  have one: "\<exists>a'. update_dynamics ap_math_ref 0 vzero ex_fwd_only = Inr a' \<and>
         dcm a' = midentity \<and> gyro a' = vzero \<and> use_smoothing a' \<and>
         mat_mul (transposed (dcm a')) (dcm a') = midentity \<and>
         vy (mc (dcm a')) = 0 \<and> vx (mc (dcm a')) \<le> 0 \<and>
         vy (mat_mul_vec (transposed (dcm a')) (velocity_ef a')) = 0 \<and>
         0 \<le> vx (mat_mul_vec (transposed (dcm a')) (velocity_ef a'))"
  proof -
    from forward_only_contact [OF ex_fwd_only_fields(1) ex_fwd_only_integrated(2)
        ex_fwd_only_fields(12), of 0]
    obtain a' where r: "update_dynamics ap_math_ref 0 vzero ex_fwd_only = Inr a'"
      and d: "dcm a' = from_euler ap_math_ref 0
                 (if vlength (velocity_ef (integrated ap_math_ref vzero ex_fwd_only)) < 5 then 0
                  else MAX_f (fst (snd (to_euler ap_math_ref (dcm (integrated ap_math_ref vzero ex_fwd_only))))) 0)
                 (snd (snd (to_euler ap_math_ref (dcm (integrated ap_math_ref vzero ex_fwd_only)))))"
      and g: "gyro a' = vzero" "use_smoothing a'"
      and y: "mat_mul (transposed (dcm a')) (dcm a') = midentity \<and> vy (mc (dcm a')) = 0 \<longrightarrow>
                vy (mat_mul_vec (transposed (dcm a')) (velocity_ef a')) = 0"
      and x: "mat_mul (transposed (dcm a')) (dcm a') = midentity \<and> vx (mc (dcm a')) \<le> 0 \<longrightarrow>
                0 \<le> vx (mat_mul_vec (transposed (dcm a')) (velocity_ef a'))"
      by blast
    have d': "dcm a' = midentity"
      by (simp add: d ex_fwd_only_integrated ref_yaw_identity ref_from_euler_zero vlength_def)
    have c: "vy (mc midentity) = 0" "vx (mc midentity) \<le> 0"
      by (simp_all add: midentity_def)
    show ?thesis
      using r g x y c by (simp add: d' midentity_orthonormal)
  qed
  have two: "\<exists>a'. update_dynamics ap_math_ref 0 vzero ex_touchdown = Inr a' \<and>
         dcm a' = from_euler ap_math_ref 0 (arcsin (3 / 5)) 0 \<and>
         gyro a' = vzero \<and> use_smoothing a'"
  proof -
    from forward_only_contact [OF ex_touchdown_fields(1) ex_touchdown_integrated(2)
        ex_touchdown_fields(12), of 0]
    obtain a' where r: "update_dynamics ap_math_ref 0 vzero ex_touchdown = Inr a'"
      and d: "dcm a' = from_euler ap_math_ref 0
                 (if vlength (velocity_ef (integrated ap_math_ref vzero ex_touchdown)) < 5 then 0
                  else MAX_f (fst (snd (to_euler ap_math_ref (dcm (integrated ap_math_ref vzero ex_touchdown))))) 0)
                 (snd (snd (to_euler ap_math_ref (dcm (integrated ap_math_ref vzero ex_touchdown)))))"
      and g: "gyro a' = vzero" "use_smoothing a'"
      by blast
    have m: "MAX_f (arcsin (3 / 5)) 0 = arcsin (3 / 5)"
      using arcsin_three_fifths by (simp add: MAX_f_def)
    have "dcm a' = from_euler ap_math_ref 0 (arcsin (3 / 5)) 0"
      by (simp add: d ex_touchdown_integrated ref_pitched_euler ex_touchdown_speed m)
    with r g show ?thesis by blast
  qed
  have slow: "vlength (velocity_ef (integrated ap_math_ref vzero ex_fwd_only)) < 5"
    by (simp add: ex_fwd_only_integrated vlength_def)
  have fast: "\<not> vlength (velocity_ef (integrated ap_math_ref vzero ex_touchdown)) < 5"
    by (simp add: ex_touchdown_integrated ex_touchdown_speed)
  show ?thesis
    by (intro conjI)
       (rule one two slow fast ex_fwd_only_fields(1) ex_fwd_only_fields(12)
          ex_fwd_only_integrated(2) ex_touchdown_fields(1) ex_touchdown_fields(12)
          ex_touchdown_integrated(2))+
qed

text \<open>The claim as stated fails on the speed it names: the code compares the magnitude of
  the whole earth-frame velocity, sink rate included, with 5 m/s, not the ground speed.
  At touchdown with 3 m/s over the ground and a sink rate of 4.5 m/s the ground speed is
  below 5 m/s and yet the pitch is not forced to 0: it stays \<open>arcsin (3/5)\<close>.\<close>

theorem forward_only_ground_speed_counterexample:
  "\<not> isl ex_touchdown_result \<and>
   on_ground (integrated ap_math_ref vzero ex_touchdown) \<and>
   ground_behavior ex_touchdown = GROUND_BEHAVIOR_FWD_ONLY \<and>
   velocity_ef (integrated ap_math_ref vzero ex_touchdown) = vec 3 0 (9 / 2) \<and>
   ground_speed_spec (velocity_ef (integrated ap_math_ref vzero ex_touchdown)) = 3 \<and>
   ground_speed_spec (velocity_ef (integrated ap_math_ref vzero ex_touchdown)) < 5 \<and>
   dcm (projr ex_touchdown_result) = from_euler ap_math_ref 0 (arcsin (3 / 5)) 0 \<and>
   vx (mc (dcm (projr ex_touchdown_result))) = - (3 / 5) \<and>
   vx (mc (from_euler ap_math_ref 0 0 0)) = 0 \<and>
   dcm (projr ex_touchdown_result) \<noteq> from_euler ap_math_ref 0 0 0"
proof -
  let ?a = ex_touchdown
  note f = ex_touchdown_fields and i = ex_touchdown_integrated
  have gb: "ground_behavior (integrated ap_math_ref vzero ?a) = GROUND_BEHAVIOR_FWD_ONLY"
    by (simp add: integrate_static f)
  from update_dynamics_result [OF f(1), of ap_math_ref 0 vzero]
  obtain a' where r: "update_dynamics ap_math_ref 0 vzero ?a = Inr a'"
    and d: "dcm a' = dcm (update_dynamics_ground ap_math_ref 0
              (accel_earth_of ap_math_ref vzero ?a) (on_ground ?a) (integrated ap_math_ref vzero ?a))"
    by blast
  have m: "MAX_f (arcsin (3 / 5)) 0 = arcsin (3 / 5)"
    using arcsin_three_fifths by (simp add: MAX_f_def)
  have d': "dcm a' = from_euler ap_math_ref 0 (arcsin (3 / 5)) 0"
    by (simp add: d ground_fwd_only(1) [OF i(2) gb] i ref_pitched_euler ex_touchdown_speed m)
  have cx: "vx (mc (dcm a')) = - (3 / 5)"
    by (simp add: d' ap_math_ref_def ref_from_euler_def)
  have c0: "vx (mc (from_euler ap_math_ref 0 0 0)) = 0"
    by (simp add: ap_math_ref_def ref_from_euler_def)
  have ne: "dcm a' \<noteq> from_euler ap_math_ref 0 0 0"
    using cx c0 by auto
  have p: "projr ex_touchdown_result = a'" "\<not> isl ex_touchdown_result"
    by (simp_all add: ex_touchdown_result_def r)
  show ?thesis
    unfolding p
    by (intro conjI) (simp_all add: i f ex_touchdown_speed d' [symmetric] cx c0 ne p)
qed

subsection \<open>Reset of the smoothing filter\<close>

text \<open>Claim C6. Whenever \<open>smooth_sensors\<close> runs with no previous smoothing update (the
  timestamp of the last update is 0) or with the position more than 10 m away from the
  smoothed position, the smoothed position, orientation, body acceleration, velocity,
  gyro and location are set equal to the truth values, the timestamp to the current
  time, and nothing else changes: no filtering is applied.\<close>

theorem smoothing_reset:
  assumes "sm_last_update_us (smoothing a) = 0 \<or>
           vlength (vsub (position a) (sm_position (smoothing a))) > 10"
  shows "smooth_sensors L a =
           a\<lparr>smoothing := (smoothing a)
               \<lparr>sm_position := position a,
                sm_rotation_b2e := dcm a,
                sm_accel_body := accel_body a,
                sm_velocity_ef := velocity_ef a,
                sm_gyro := gyro a,
                sm_last_update_us := time_now_us a,
                sm_location := location a\<rparr>\<rparr> \<and>
         sm_position (smoothing (smooth_sensors L a)) = position a \<and>
         sm_rotation_b2e (smoothing (smooth_sensors L a)) = dcm a \<and>
         sm_accel_body (smoothing (smooth_sensors L a)) = accel_body a \<and>
         sm_velocity_ef (smoothing (smooth_sensors L a)) = velocity_ef a \<and>
         sm_gyro (smoothing (smooth_sensors L a)) = gyro a \<and>
         sm_location (smoothing (smooth_sensors L a)) = location a"
  using assms by (auto simp add: smooth_sensors_def Let_def)

theorem smoothing_reset_witness:
  "sm_last_update_us (smoothing ex_diverged) \<noteq> 0 \<and>
   vlength (vsub (position ex_diverged) (sm_position (smoothing ex_diverged))) > 10 \<and>
   sm_position (smoothing (smooth_sensors ap_math_ref ex_diverged)) = vec 0 0 (- 100) \<and>
   sm_rotation_b2e (smoothing (smooth_sensors ap_math_ref ex_diverged)) = midentity \<and>
   sm_accel_body (smoothing (smooth_sensors ap_math_ref ex_diverged)) = vec 0 0 (- GRAVITY_MSS)"
  using smoothing_reset [of ex_diverged ap_math_ref] ex_diverged_far
  by (simp add: ex_diverged_def example_aircraft_def example_smoothing_def)

subsection \<open>Updates the smoothing filter skips\<close>

text \<open>Claim C7, as amended. For every call of \<open>smooth_sensors\<close> that is not a reset
  (there is a previous update and the position is within 10 m of the smoothed position)
  and whose elapsed time since the previous update is negative or greater than 0.1 s,
  the update is skipped entirely: the whole state, hence the smoothed position,
  velocity, orientation, gyro, acceleration and timestamp, is left unchanged, and the
  function returns normally. The elapsed time is an unsigned difference of timestamps:
  it is never negative, and a clock that stepped back gives a very large elapsed time.
  Nothing is said of a zero elapsed time.\<close>

theorem smoothing_skip:
  assumes "sm_last_update_us (smoothing a) \<noteq> 0"
    and "vlength (vsub (position a) (sm_position (smoothing a))) \<le> 10"
    and "smoothing_delta_time a < 0 \<or> smoothing_delta_time a > 1 / 10"
  shows "smooth_sensors L a = a \<and> 0 \<le> smoothing_delta_time a"
  using assms smoothing_delta_time_nonneg [of a]
  by (auto simp add: smooth_sensors_def Let_def smoothing_delta_time_def simp del: of_nat_unat)

theorem smoothing_skip_witness:
  "sm_last_update_us (smoothing ex_late) \<noteq> 0 \<and>
   vlength (vsub (position ex_late) (sm_position (smoothing ex_late))) \<le> 10 \<and>
   smoothing_delta_time ex_late > 1 / 10 \<and>
   smooth_sensors ap_math_ref ex_late = ex_late \<and>
   sm_last_update_us (smoothing ex_clock_back) \<noteq> 0 \<and>
   vlength (vsub (position ex_clock_back) (sm_position (smoothing ex_clock_back))) \<le> 10 \<and>
   smoothing_delta_time ex_clock_back > 1 / 10 \<and>
   smooth_sensors ap_math_ref ex_clock_back = ex_clock_back"
  using smoothing_skip [of ex_late ap_math_ref] smoothing_skip [of ex_clock_back ap_math_ref]
  by (simp add: ex_late_fields ex_clock_back_fields)

text \<open>The claim as stated fails for a non-positive elapsed time: with an elapsed time of
  exactly 0 the update is not skipped, the smoothed body acceleration changes from
  \<open>(0, 0, 0)\<close> to \<open>(0, 0, -g)\<close>.\<close>

theorem smoothing_zero_elapsed_counterexample:
  "sm_last_update_us (smoothing ex_same_time) \<noteq> 0 \<and>
   smoothing_delta_time ex_same_time \<le> 0 \<and>
   sm_accel_body (smoothing ex_same_time) = vzero \<and>
   sm_accel_body (smoothing (smooth_sensors ap_math_ref ex_same_time)) = vec 0 0 (- GRAVITY_MSS) \<and>
   smooth_sensors ap_math_ref ex_same_time \<noteq> ex_same_time"
proof -
  note f = ex_same_time_fields
  have n: "\<not> (smoothing_delta_time ex_same_time < 0 \<or> smoothing_delta_time ex_same_time > 1 / 10)"
    by (simp add: f)
  have c: "constrain_float 0 (- (14 * GRAVITY_MSS)) (14 * GRAVITY_MSS) = 0"
    by (simp add: constrain_float_def GRAVITY_MSS_def)
  have acc: "sm_accel_body (smoothing (smooth_sensors ap_math_ref ex_same_time)) = vec 0 0 (- GRAVITY_MSS)"
    unfolding smooth_update_accel(1) [OF f(1) f(2) n]
    by (simp add: ex_same_time_def example_aircraft_def example_smoothing_def Let_def vsub_def vadd_def
        vdiv_def mat_mul_vec_def vdot_def midentity_def transposed_def c)
  have "sm_accel_body (smoothing (smooth_sensors ap_math_ref ex_same_time)) \<noteq>
        sm_accel_body (smoothing ex_same_time)"
    by (simp add: acc f vec_neq_vzero GRAVITY_MSS_def)
  then have "smooth_sensors ap_math_ref ex_same_time \<noteq> ex_same_time" by auto
  then show ?thesis by (simp add: f acc)
qed

subsection \<open>The snapshot while smoothing is enabled\<close>

text \<open>Claim C10. Whenever \<open>fill_fdm\<close> returns a snapshot and the enabled flag of the
  smoothing state is set, the snapshot takes the body accelerations, the body rates, the
  earth-frame velocity components and the geodetic position from the smoothed state;
  the reported attitude (roll, pitch and yaw, and the quaternion) is that of the truth
  orientation matrix, composed with the inverse mounting rotation when the sensor
  package is mounted with a rotation; and the reported attitude does not depend on the
  smoothed orientation: with any other smoothed orientation in the initial state,
  \<open>fill_fdm\<close> reports the same attitude.\<close>

theorem snapshot_from_smoothed_state:
  assumes "fill_fdm L wall a fdm = Inr (a', fdm')" and "sm_enabled (smoothing a')"
  shows "fdm_xAccel fdm' = vx (sm_accel_body (smoothing a')) \<and>
         fdm_yAccel fdm' = vy (sm_accel_body (smoothing a')) \<and>
         fdm_zAccel fdm' = vz (sm_accel_body (smoothing a')) \<and>
         fdm_rollRate fdm' = degrees (vx (sm_gyro (smoothing a'))) \<and>
         fdm_pitchRate fdm' = degrees (vy (sm_gyro (smoothing a'))) \<and>
         fdm_yawRate fdm' = degrees (vz (sm_gyro (smoothing a'))) \<and>
         fdm_speedN fdm' = vx (sm_velocity_ef (smoothing a')) \<and>
         fdm_speedE fdm' = vy (sm_velocity_ef (smoothing a')) \<and>
         fdm_speedD fdm' = vz (sm_velocity_ef (smoothing a')) \<and>
         fdm_latitude fdm' =
           real_of_int (sint (lat (sm_location (smoothing a')))) * (1 / 10000000) \<and>
         fdm_longitude fdm' =
           real_of_int (sint (lng (sm_location (smoothing a')))) * (1 / 10000000) \<and>
         fdm_altitude fdm' =
           real_of_int (sint (alt (sm_location (smoothing a')))) * (1 / 100) \<and>
         (\<exists>s. sitl a' = Some s \<and>
              fdm_attitude fdm' =
                attitude_of L (if rotated_mounting a then mat_mul (dcm a) (ahrs_rotation_inv s)
                               else dcm a)) \<and>
         (\<forall>R b fdm2.
            fill_fdm L wall (a\<lparr>smoothing := (smoothing a)\<lparr>sm_rotation_b2e := R\<rparr>\<rparr>) fdm = Inr (b, fdm2)
            \<longrightarrow> fdm_attitude fdm2 = fdm_attitude fdm')"
proof -
  define a1 where "a1 = (if use_smoothing a then smooth_sensors L a else a)"
  obtain S where a1: "a1 = a\<lparr>smoothing := S\<rparr>"
    using maybe_smooth_shape [of a L] unfolding a1_def by blast
  have e: "fill_fdm_emit L wall a1 fdm = Inr (a', fdm')"
    using assms(1) by (simp add: fill_fdm_def a1_def)
  note r = emit_result [OF e]
  have en: "sm_enabled (smoothing a1)" using assms(2) r(1) by simp
  have att: "reported_attitude L a = Inr (fdm_attitude fdm')"
    using r(2) by (simp add: a1 reported_attitude_smoothing)
  have indep: "fdm_attitude fdm2 = fdm_attitude fdm'"
    if "fill_fdm L wall (a\<lparr>smoothing := (smoothing a)\<lparr>sm_rotation_b2e := R\<rparr>\<rparr>) fdm = Inr (b, fdm2)"
    for R b fdm2
  proof -
    let ?c = "a\<lparr>smoothing := (smoothing a)\<lparr>sm_rotation_b2e := R\<rparr>\<rparr>"
    define c1 where "c1 = (if use_smoothing ?c then smooth_sensors L ?c else ?c)"
    obtain T where "c1 = ?c\<lparr>smoothing := T\<rparr>"
      using maybe_smooth_shape [of ?c L] unfolding c1_def by blast
    then have c1: "c1 = a\<lparr>smoothing := T\<rparr>" by simp
    have "fill_fdm_emit L wall c1 fdm = Inr (b, fdm2)"
      using that by (simp add: fill_fdm_def c1_def)
    from emit_result(2) [OF this] have "reported_attitude L a = Inr (fdm_attitude fdm2)"
      by (simp add: c1 reported_attitude_smoothing)
    with att show ?thesis by simp
  qed
  have "\<exists>s. sitl a' = Some s \<and>
              fdm_attitude fdm' =
                attitude_of L (if rotated_mounting a then mat_mul (dcm a) (ahrs_rotation_inv s)
                               else dcm a)"
  proof -
    have "dcm a1 = dcm a" "rotated_mounting a1 = rotated_mounting a"
      by (simp_all add: a1 rotated_mounting_def)
    with r(3) show ?thesis by (simp only:)
  qed
  then show ?thesis
    using indep by (simp add: r fields_smoothed [OF en])
qed

theorem snapshot_from_smoothed_state_witness:
  "ex_smoothed_result = Inr (fst (projr ex_smoothed_result), snd (projr ex_smoothed_result)) \<and>
   sm_enabled (smoothing (fst (projr ex_smoothed_result))) \<and>
   fdm_xAccel (snd (projr ex_smoothed_result)) = 1 \<and>
   fdm_yAccel (snd (projr ex_smoothed_result)) = 2 \<and>
   fdm_zAccel (snd (projr ex_smoothed_result)) = 3 \<and>
   fdm_attitude (snd (projr ex_smoothed_result)) =
     attitude_of ap_math_ref (ref_from_euler 0 0 (pi / 2)) \<and>
   sm_rotation_b2e (smoothing (fst (projr ex_smoothed_result))) = midentity"
proof -
  have run: "ex_smoothed_result =
      Inr (ex_smoothed, fill_fdm_fields ap_math_ref ex_smoothed example_fdm)"
    by (simp only: ex_smoothed_result_def ex_smoothed_run)
  have p: "fst (projr ex_smoothed_result) = ex_smoothed"
    by (simp add: run)
  have r': "ex_smoothed_result =
      Inr (fst (projr ex_smoothed_result), snd (projr ex_smoothed_result))"
    by (subst (2 3) run) (simp add: run)
  have r: "fill_fdm ap_math_ref 0 ex_smoothed example_fdm =
      Inr (fst (projr ex_smoothed_result), snd (projr ex_smoothed_result))"
    using r' by (simp only: ex_smoothed_result_def)
  have en: "sm_enabled (smoothing (fst (projr ex_smoothed_result)))"
    by (simp add: p ex_smoothed_fields)
  have nr: "\<not> rotated_mounting ex_smoothed"
    by (simp add: rotated_mounting_def ex_smoothed_fields)
  note t = snapshot_from_smoothed_state [OF r en]
  have x: "fdm_xAccel (snd (projr ex_smoothed_result)) = 1"
    and y: "fdm_yAccel (snd (projr ex_smoothed_result)) = 2"
    and z: "fdm_zAccel (snd (projr ex_smoothed_result)) = 3"
    using t by (simp_all add: p ex_smoothed_fields)
  have att: "fdm_attitude (snd (projr ex_smoothed_result)) =
     attitude_of ap_math_ref (ref_from_euler 0 0 (pi / 2))"
    using t nr by (auto simp add: ex_smoothed_fields)
  have sm: "sm_rotation_b2e (smoothing (fst (projr ex_smoothed_result))) = midentity"
    by (simp add: p ex_smoothed_fields)
  show ?thesis
    by (intro conjI) (rule r' en x y z att sm)+
qed

subsection \<open>Disturbances\<close>




end
